theory Spec2Isabelle
  imports Complex_Main
begin

section \<open>JavaScript numbers\<close>

text \<open>
  The engine of \<^verbatim>\<open>src/App.tsx\<close> computes with JavaScript numbers. They are modelled
  as exact reals extended by the three special values of IEEE arithmetic, so that a
  division by zero is a value of the model (\<open>Infinity\<close>, \<open>-Infinity\<close> or \<open>NaN\<close>) and not
  HOL's \<open>x / 0 = 0\<close>. Finite results are exact: rounding and overflow are not modelled.
  Zero has no sign: every zero divides as \<open>+0\<close> does (the zero divisors of the engine are
  differences \<open>x - x\<close>, which are \<open>+0\<close>, and inputs).
\<close>

datatype number = Fin real | PInf | NInf | NaN

instantiation number :: "{plus, minus, times, inverse, ord}"
begin

fun plus_number :: "number \<Rightarrow> number \<Rightarrow> number" where
  "plus_number (Fin a) (Fin b) = Fin (a + b)"
| "plus_number NaN _ = NaN"
| "plus_number _ NaN = NaN"
| "plus_number PInf NInf = NaN"
| "plus_number NInf PInf = NaN"
| "plus_number PInf _ = PInf"
| "plus_number _ PInf = PInf"
| "plus_number NInf _ = NInf"
| "plus_number _ NInf = NInf"

fun minus_number :: "number \<Rightarrow> number \<Rightarrow> number" where
  "minus_number (Fin a) (Fin b) = Fin (a - b)"
| "minus_number NaN _ = NaN"
| "minus_number _ NaN = NaN"
| "minus_number PInf PInf = NaN"
| "minus_number NInf NInf = NaN"
| "minus_number PInf _ = PInf"
| "minus_number _ NInf = PInf"
| "minus_number NInf _ = NInf"
| "minus_number _ PInf = NInf"

fun times_number :: "number \<Rightarrow> number \<Rightarrow> number" where
  "times_number (Fin a) (Fin b) = Fin (a * b)"
| "times_number NaN _ = NaN"
| "times_number _ NaN = NaN"
| "times_number (Fin a) PInf = (if a = 0 then NaN else if 0 < a then PInf else NInf)"
| "times_number (Fin a) NInf = (if a = 0 then NaN else if 0 < a then NInf else PInf)"
| "times_number PInf (Fin b) = (if b = 0 then NaN else if 0 < b then PInf else NInf)"
| "times_number NInf (Fin b) = (if b = 0 then NaN else if 0 < b then NInf else PInf)"
| "times_number PInf PInf = PInf"
| "times_number NInf NInf = PInf"
| "times_number PInf NInf = NInf"
| "times_number NInf PInf = NInf"

fun divide_number :: "number \<Rightarrow> number \<Rightarrow> number" where
  "divide_number (Fin a) (Fin b) =
     (if b \<noteq> 0 then Fin (a / b)
      else if a = 0 then NaN else if 0 < a then PInf else NInf)"
| "divide_number NaN _ = NaN"
| "divide_number _ NaN = NaN"
| "divide_number (Fin a) PInf = Fin 0"
| "divide_number (Fin a) NInf = Fin 0"
| "divide_number PInf (Fin b) = (if 0 \<le> b then PInf else NInf)"
| "divide_number NInf (Fin b) = (if 0 \<le> b then NInf else PInf)"
| "divide_number PInf PInf = NaN"
| "divide_number PInf NInf = NaN"
| "divide_number NInf PInf = NaN"
| "divide_number NInf NInf = NaN"

definition inverse_number :: "number \<Rightarrow> number" where
  "inverse_number x = divide (Fin 1) x"

fun less_number :: "number \<Rightarrow> number \<Rightarrow> bool" where
  "less_number (Fin a) (Fin b) = (a < b)"
| "less_number NaN _ = False"
| "less_number _ NaN = False"
| "less_number _ NInf = False"
| "less_number PInf _ = False"
| "less_number NInf _ = True"
| "less_number _ PInf = True"

fun less_eq_number :: "number \<Rightarrow> number \<Rightarrow> bool" where
  "less_eq_number (Fin a) (Fin b) = (a \<le> b)"
| "less_eq_number NaN _ = False"
| "less_eq_number _ NaN = False"
| "less_eq_number NInf _ = True"
| "less_eq_number _ PInf = True"
| "less_eq_number _ NInf = False"
| "less_eq_number PInf _ = False"

instance ..

end

text \<open>\<^verbatim>\<open>a === b\<close> on numbers: \<open>NaN\<close> is equal to nothing, itself included.\<close>

definition js_eq :: "number \<Rightarrow> number \<Rightarrow> bool" where
  "js_eq a b = (a \<noteq> NaN \<and> b \<noteq> NaN \<and> a = b)"

definition isFinite :: "number \<Rightarrow> bool" where
  "isFinite x = (case x of Fin _ \<Rightarrow> True | _ \<Rightarrow> False)"

text \<open>
  \<^verbatim>\<open>Math.pow(x, n)\<close> for a finite exponent \<open>n\<close>: a whole exponent gives the repeated
  product (or its inverse), any other exponent the real power of a positive base and \<open>NaN\<close>
  for a negative base.
\<close>

definition Math_pow :: "number \<Rightarrow> real \<Rightarrow> number" where
  "Math_pow x n =
     (if n = 0 then Fin 1
      else case x of
        NaN \<Rightarrow> NaN
      | Fin a \<Rightarrow>
          (if n = of_int \<lfloor>n\<rfloor> then
             (if 0 < n then Fin (a ^ nat \<lfloor>n\<rfloor>)
              else if a = 0 then PInf else Fin (1 / a ^ nat (- \<lfloor>n\<rfloor>)))
           else if 0 < a then Fin (a powr n)
           else if a = 0 then (if 0 < n then Fin 0 else PInf)
           else NaN)
      | PInf \<Rightarrow> (if 0 < n then PInf else Fin 0)
      | NInf \<Rightarrow>
          (if 0 < n then (if n = of_int \<lfloor>n\<rfloor> \<and> odd \<lfloor>n\<rfloor> then NInf else PInf)
           else Fin 0))"


section \<open>Data model (\<^verbatim>\<open>types.ts\<close>)\<close>

datatype RepaymentMethod = PrincipalInterestEqual | PrincipalEqual

datatype CollateralType = Housing | Other

text \<open>
  The numeric fields of \<open>LoanInputs\<close> are finite numbers of either sign, whole or not,
  the two year counts included: the input layer passes on what \<^verbatim>\<open>parseFloat\<close> returns
  (and never \<open>NaN\<close>).
\<close>

record LoanInputs =
  annualIncome :: real
  loanAmount :: real
  interestRate :: real
  loanTermYear :: real
  gracePeriodYear :: real
  repaymentMethod :: RepaymentMethod
  collateralType :: CollateralType
  applyStressDsr :: bool

record MonthlyPayment =
  month :: int
  payment :: number
  principal :: number
  interest :: number
  balance :: number

record CalculationResult =
  dsrRatio :: number
  monthlyPayments :: "MonthlyPayment list"
  totalInterest :: number
  totalPayment :: number
  avgMonthlyPayment :: number
  stressDsrRateUsed :: number

section \<open>The engine: \<^verbatim>\<open>calculateDSR\<close> of \<^verbatim>\<open>src/App.tsx\<close>\<close>

definition totalMonths :: "LoanInputs \<Rightarrow> real" where
  "totalMonths inp = loanTermYear inp * 12"

definition graceMonths :: "LoanInputs \<Rightarrow> real" where
  "graceMonths inp = gracePeriodYear inp * 12"

definition monthlyRate :: "LoanInputs \<Rightarrow> number" where
  "monthlyRate inp = (Fin (interestRate inp) / Fin 100) / Fin 12"

definition stressRate :: "LoanInputs \<Rightarrow> number" where
  "stressRate inp = (if applyStressDsr inp then Fin 3 else Fin 0)"

definition stressInterestRate :: "LoanInputs \<Rightarrow> number" where
  "stressInterestRate inp = Fin (interestRate inp) + stressRate inp"

definition stressMonthlyRate :: "LoanInputs \<Rightarrow> number" where
  "stressMonthlyRate inp = (stressInterestRate inp / Fin 100) / Fin 12"

subsection \<open>First loop: the actual payment schedule\<close>

text \<open>The variables the first loop updates.\<close>

record ActualVars =
  remainingBalance :: number
  totalInterestV :: number
  totalPaymentV :: number
  monthlyPaymentsV :: "MonthlyPayment list"

definition actualInit :: "LoanInputs \<Rightarrow> ActualVars" where
  "actualInit inp =
     \<lparr>remainingBalance = Fin (loanAmount inp), totalInterestV = Fin 0,
      totalPaymentV = Fin 0, monthlyPaymentsV = []\<rparr>"

text \<open>One pass through the body of the loop, for month \<open>m\<close>.\<close>

definition actualStep :: "LoanInputs \<Rightarrow> int \<Rightarrow> ActualVars \<Rightarrow> ActualVars" where
  "actualStep inp m s =
     (let interestPayment = remainingBalance s * monthlyRate inp;
          (principalPayment, monthlyTotal) =
            (if of_int m \<le> graceMonths inp then (Fin 0, interestPayment)
             else
               let effectiveRemainingMonths = totalMonths inp - graceMonths inp in
               if repaymentMethod inp = PrincipalEqual then
                 (let principalPayment =
                        Fin (loanAmount inp) / Fin effectiveRemainingMonths
                  in (principalPayment, principalPayment + interestPayment))
               else
                 (let n = effectiveRemainingMonths;
                      monthlyTotal =
                        (Fin (loanAmount inp) * monthlyRate inp
                           * Math_pow (Fin 1 + monthlyRate inp) n)
                        / (Math_pow (Fin 1 + monthlyRate inp) n - Fin 1)
                  in (monthlyTotal - interestPayment, monthlyTotal)));
          decreased = remainingBalance s - principalPayment;
          newBalance = (if decreased < Fin 0 then Fin 0 else decreased)
      in \<lparr>remainingBalance = newBalance,
          totalInterestV = totalInterestV s + interestPayment,
          totalPaymentV = totalPaymentV s + monthlyTotal,
          monthlyPaymentsV = monthlyPaymentsV s @
            [\<lparr>month = m, payment = monthlyTotal, principal = principalPayment,
              interest = interestPayment, balance = newBalance\<rparr>]\<rparr>)"

text \<open>\<^verbatim>\<open>for (let m = 1; m <= totalMonths; m++)\<close>, entered at month \<open>m\<close>.\<close>

function actualLoop :: "LoanInputs \<Rightarrow> int \<Rightarrow> ActualVars \<Rightarrow> ActualVars" where
  "actualLoop inp m s =
     (if of_int m \<le> totalMonths inp then actualLoop inp (m + 1) (actualStep inp m s)
      else s)"
  by pat_completeness auto
termination
  by (relation "measure (\<lambda>(inp, m, s). nat (\<lfloor>totalMonths inp\<rfloor> + 1 - m))")
     (auto simp add: le_floor_iff)

declare actualLoop.simps [simp del]

subsection \<open>Second loop: total interest at the stress rate\<close>

text \<open>The second loop updates \<open>(stressBalance, totalStressInterest)\<close>.\<close>

definition stressStep :: "LoanInputs \<Rightarrow> int \<Rightarrow> number \<times> number \<Rightarrow> number \<times> number" where
  "stressStep inp m v =
     (let stressBalance = fst v; totalStressInterest = snd v;
          stressInt = stressBalance * stressMonthlyRate inp;
          stressPrincipal =
            (if graceMonths inp < of_int m then
               let effectiveRemainingMonths = totalMonths inp - graceMonths inp in
               if repaymentMethod inp = PrincipalEqual then
                 Fin (loanAmount inp) / Fin effectiveRemainingMonths
               else
                 (let n = effectiveRemainingMonths;
                      pmt = (Fin (loanAmount inp) * stressMonthlyRate inp
                               * Math_pow (Fin 1 + stressMonthlyRate inp) n)
                            / (Math_pow (Fin 1 + stressMonthlyRate inp) n - Fin 1)
                  in pmt - stressInt)
             else Fin 0);
          decreased = stressBalance - stressPrincipal
      in (if decreased < Fin 0 then Fin 0 else decreased,
          totalStressInterest + stressInt))"

function stressLoop :: "LoanInputs \<Rightarrow> int \<Rightarrow> number \<times> number \<Rightarrow> number \<times> number" where
  "stressLoop inp m v =
     (if of_int m \<le> totalMonths inp then stressLoop inp (m + 1) (stressStep inp m v)
      else v)"
  by pat_completeness auto
termination
  by (relation "measure (\<lambda>(inp, m, v). nat (\<lfloor>totalMonths inp\<rfloor> + 1 - m))")
     (auto simp add: le_floor_iff)

declare stressLoop.simps [simp del]

definition totalStressInterest :: "LoanInputs \<Rightarrow> number" where
  "totalStressInterest inp = snd (stressLoop inp 1 (Fin (loanAmount inp), Fin 0))"

subsection \<open>The DSR ratio and the result\<close>

definition annualPrincipalBurden :: "LoanInputs \<Rightarrow> number" where
  "annualPrincipalBurden inp =
     (if collateralType inp = Housing then
        (let effectiveTermYear = loanTermYear inp - gracePeriodYear inp in
         if 0 < effectiveTermYear then Fin (loanAmount inp) / Fin effectiveTermYear
         else Fin (loanAmount inp))
      else Fin (loanAmount inp) / Fin (loanTermYear inp))"

definition annualInterestBurden :: "LoanInputs \<Rightarrow> number" where
  "annualInterestBurden inp = totalStressInterest inp / Fin (loanTermYear inp)"

definition calculateDSR :: "LoanInputs \<Rightarrow> CalculationResult" where
  "calculateDSR inp =
     (let s = actualLoop inp 1 (actualInit inp);
          annualRepaymentForDsr = annualPrincipalBurden inp + annualInterestBurden inp;
          dsr = (if 0 < annualIncome inp
                 then (annualRepaymentForDsr / Fin (annualIncome inp)) * Fin 100
                 else Fin 0)
      in \<lparr>dsrRatio = dsr,
          monthlyPayments = monthlyPaymentsV s,
          totalInterest = totalInterestV s,
          totalPayment = totalPaymentV s,
          avgMonthlyPayment = totalPaymentV s / Fin (totalMonths inp),
          stressDsrRateUsed = stressInterestRate inp\<rparr>)"

section \<open>The loops, pass by pass\<close>

text \<open>
  \<open>actualAfter inp k\<close> holds the variables of the first loop after its first \<open>k\<close>
  passes, \<open>stressAfter inp k\<close> those of the second loop; each loop makes
  \<open>passes inp\<close> passes, one for each whole month up to \<open>totalMonths inp\<close>.
\<close>


definition passes :: "LoanInputs \<Rightarrow> nat" where
  "passes inp = nat \<lfloor>totalMonths inp\<rfloor>"

primrec actualAfter :: "LoanInputs \<Rightarrow> nat \<Rightarrow> ActualVars" where
  "actualAfter inp 0 = actualInit inp"
| "actualAfter inp (Suc k) = actualStep inp (int k + 1) (actualAfter inp k)"

primrec stressAfter :: "LoanInputs \<Rightarrow> nat \<Rightarrow> number \<times> number" where
  "stressAfter inp 0 = (Fin (loanAmount inp), Fin 0)"
| "stressAfter inp (Suc k) = stressStep inp (int k + 1) (stressAfter inp k)"

text \<open>The entry that the pass for month \<open>m\<close> pushes, entered with the variables \<open>s\<close>.\<close>

definition pushed :: "LoanInputs \<Rightarrow> int \<Rightarrow> ActualVars \<Rightarrow> MonthlyPayment" where
  "pushed inp m s = last (monthlyPaymentsV (actualStep inp m s))"

text \<open>The sum of a list of numbers, added up from \<open>0\<close> in order.\<close>

definition js_sum :: "number list \<Rightarrow> number" where
  "js_sum xs = foldl (+) (Fin 0) xs"

text \<open>
  Closed forms over the reals, for the proofs: the value of the annuity expression of the
  engine for loan \<open>L\<close>, monthly rate \<open>r > 0\<close> and \<open>n\<close> months, and the balance that \<open>j\<close>
  such payments leave.
\<close>

definition annuityPayment :: "real \<Rightarrow> real \<Rightarrow> real \<Rightarrow> real" where
  "annuityPayment L r n = L * r * (1 + r) powr n / ((1 + r) powr n - 1)"

definition annuityBalance :: "real \<Rightarrow> real \<Rightarrow> real \<Rightarrow> nat \<Rightarrow> real" where
  "annuityBalance L r n j = L * ((1 + r) powr n - (1 + r) ^ j) / ((1 + r) powr n - 1)"

text \<open>The input with the stress add-on moved into the interest rate, for the proofs.\<close>

definition stressedInputs :: "LoanInputs \<Rightarrow> LoanInputs" where
  "stressedInputs inp = inp\<lparr>interestRate := interestRate inp + (if applyStressDsr inp then 3 else 0)\<rparr>"

text \<open>Two classes of numbers, for the proofs: \<open>NaN\<close> or finite and not negative; \<open>NaN\<close> or finite.\<close>

definition nanOrNonNeg :: "number \<Rightarrow> bool" where
  "nanOrNonNeg x = (case x of Fin a \<Rightarrow> 0 \<le> a | NaN \<Rightarrow> True | PInf \<Rightarrow> False | NInf \<Rightarrow> False)"

definition finOrNaN :: "number \<Rightarrow> bool" where
  "finOrNaN x = (case x of Fin a \<Rightarrow> True | NaN \<Rightarrow> True | PInf \<Rightarrow> False | NInf \<Rightarrow> False)"

section \<open>Concrete inputs\<close>

text \<open>One year, 1200 lent at 12 percent a year, equal principal, no grace period.\<close>

definition inputsW :: LoanInputs where
  "inputsW = \<lparr>annualIncome = 1200, loanAmount = 1200, interestRate = 12,
     loanTermYear = 1, gracePeriodYear = 0, repaymentMethod = PrincipalEqual,
     collateralType = Housing, applyStressDsr = False\<rparr>"

text \<open>Two years, the first of them a grace period.\<close>

definition inputsGrace :: LoanInputs where
  "inputsGrace = \<lparr>annualIncome = 1200, loanAmount = 1200, interestRate = 12,
     loanTermYear = 2, gracePeriodYear = 1, repaymentMethod = PrincipalEqual,
     collateralType = Housing, applyStressDsr = False\<rparr>"

text \<open>The same with a negative loan amount.\<close>

definition inputsNegativeLoan :: LoanInputs where
  "inputsNegativeLoan = \<lparr>annualIncome = 1200, loanAmount = - 1200, interestRate = 12,
     loanTermYear = 2, gracePeriodYear = 1, repaymentMethod = PrincipalEqual,
     collateralType = Housing, applyStressDsr = False\<rparr>"

text \<open>One year at zero interest, equal principal.\<close>

definition inputsZeroRatePE :: LoanInputs where
  "inputsZeroRatePE = \<lparr>annualIncome = 1200, loanAmount = 1200, interestRate = 0,
     loanTermYear = 1, gracePeriodYear = 0, repaymentMethod = PrincipalEqual,
     collateralType = Housing, applyStressDsr = False\<rparr>"


text \<open>Scenarios A and D of the specification.\<close>

definition scenarioA :: LoanInputs where
  "scenarioA = \<lparr>annualIncome = 50000000, loanAmount = 300000000, interestRate = 4.5,
     loanTermYear = 30, gracePeriodYear = 0, repaymentMethod = PrincipalInterestEqual,
     collateralType = Housing, applyStressDsr = False\<rparr>"

definition scenarioD :: LoanInputs where
  "scenarioD = scenarioA\<lparr>applyStressDsr := True\<rparr>"

text \<open>A negative loan term, other collateral.\<close>

definition inputsNegativeTerm :: LoanInputs where
  "inputsNegativeTerm = \<lparr>annualIncome = 100, loanAmount = 100, interestRate = 5,
     loanTermYear = - 1, gracePeriodYear = 0, repaymentMethod = PrincipalEqual,
     collateralType = Other, applyStressDsr = False\<rparr>"

text \<open>No income.\<close>

definition inputsNoIncome :: LoanInputs where
  "inputsNoIncome = \<lparr>annualIncome = 0, loanAmount = 1200, interestRate = 12,
     loanTermYear = 1, gracePeriodYear = 0, repaymentMethod = PrincipalEqual,
     collateralType = Housing, applyStressDsr = False\<rparr>"

text \<open>One year at zero interest, equal installments.\<close>

definition inputsZeroRate :: LoanInputs where
  "inputsZeroRate = \<lparr>annualIncome = 1200, loanAmount = 1200, interestRate = 0,
     loanTermYear = 1, gracePeriodYear = 0, repaymentMethod = PrincipalInterestEqual,
     collateralType = Housing, applyStressDsr = False\<rparr>"

text \<open>The same without income.\<close>

definition inputsZeroRateNoIncome :: LoanInputs where
  "inputsZeroRateNoIncome = inputsZeroRate\<lparr>annualIncome := 0\<rparr>"


text \<open>One year at zero interest with 11.4 months of grace: one month is left to repay in.\<close>

definition inputsOneMonthLeft :: LoanInputs where
  "inputsOneMonthLeft = \<lparr>annualIncome = 1200, loanAmount = 1200, interestRate = 0,
     loanTermYear = 1, gracePeriodYear = 19 / 20, repaymentMethod = PrincipalInterestEqual,
     collateralType = Housing, applyStressDsr = False\<rparr>"

section \<open>Facts about numbers\<close>

lemma plus_NaN [simp]: "x + NaN = NaN" "NaN + x = NaN"
  by (cases x; simp)+

lemma minus_NaN [simp]: "x - NaN = NaN" "NaN - x = NaN"
  by (cases x; simp)+

lemma times_NaN [simp]: "x * NaN = NaN" "NaN * x = NaN"
  by (cases x; simp)+

lemma divide_NaN [simp]: "x / NaN = NaN" "NaN / x = NaN"
  by (cases x; simp)+

lemma Math_pow_whole: "0 < n \<Longrightarrow> Math_pow (Fin a) (of_int n) = Fin (a ^ nat n)"
  by (simp add: Math_pow_def)

lemma Math_pow_powr: "0 < a \<Longrightarrow> 0 < n \<Longrightarrow> Math_pow (Fin a) n = Fin (a powr n)"
proof (cases "n = of_int \<lfloor>n\<rfloor>")
  case True
  assume a: "0 < a" and n: "0 < n"
  then have "0 < \<lfloor>n\<rfloor>" using True by linarith
  then have "a powr n = a ^ nat \<lfloor>n\<rfloor>"
    using a True by (metis powr_realpow of_nat_nat less_imp_le of_int_of_nat_eq)
  then show ?thesis using n True by (simp add: Math_pow_def)
next
  case False
  assume "0 < a" "0 < n"
  then show ?thesis using False by (simp add: Math_pow_def)
qed

lemma Math_pow_one [simp]: "Math_pow (Fin 1) n = Fin 1"
  by (simp add: Math_pow_def)

lemma js_sum_Nil: "js_sum [] = Fin 0"
  by (simp add: js_sum_def)

lemma js_sum_snoc: "js_sum (xs @ [x]) = js_sum xs + x"
  by (simp add: js_sum_def)

lemma nanOrNonNeg_simps [simp]:
  "nanOrNonNeg (Fin a) = (0 \<le> a)" "nanOrNonNeg NaN" "\<not> nanOrNonNeg PInf" "\<not> nanOrNonNeg NInf"
  by (simp_all add: nanOrNonNeg_def)

lemma finOrNaN_simps [simp]:
  "finOrNaN (Fin a)" "finOrNaN NaN" "\<not> finOrNaN PInf" "\<not> finOrNaN NInf"
  by (simp_all add: finOrNaN_def)

lemma nanOrNonNeg_not_less: "nanOrNonNeg x \<Longrightarrow> \<not> x < Fin 0"
  by (cases x) simp_all

lemma nanOrNonNeg_finOrNaN: "nanOrNonNeg x \<Longrightarrow> finOrNaN x"
  by (cases x) simp_all

lemma nanOrNonNeg_times: "nanOrNonNeg x \<Longrightarrow> 0 \<le> a \<Longrightarrow> nanOrNonNeg (x * Fin a)"
  by (cases x) simp_all

lemma nanOrNonNeg_plus: "nanOrNonNeg x \<Longrightarrow> nanOrNonNeg y \<Longrightarrow> nanOrNonNeg (x + y)"
  by (cases x; cases y) simp_all

lemma nanOrNonNeg_divide: "nanOrNonNeg x \<Longrightarrow> 0 < a \<Longrightarrow> nanOrNonNeg (x / Fin a)"
  by (cases x) simp_all

lemma finOrNaN_minus: "finOrNaN x \<Longrightarrow> finOrNaN y \<Longrightarrow> finOrNaN (x - y)"
  by (cases x; cases y) simp_all

lemma nanOrNonNeg_floor:
  "finOrNaN x \<Longrightarrow> nanOrNonNeg (if x < Fin 0 then Fin 0 else x)"
  by (cases x) simp_all

section \<open>Each loop returns what its passes leave\<close>

lemma pass_in_range: "real k + 1 \<le> totalMonths inp \<longleftrightarrow> k < passes inp"
proof -
  have "real k + 1 = of_int (int k + 1)" by simp
  then have "real k + 1 \<le> totalMonths inp \<longleftrightarrow> int k + 1 \<le> \<lfloor>totalMonths inp\<rfloor>"
    by (simp only: le_floor_iff)
  then show ?thesis by (simp add: passes_def) linarith
qed

lemma grace_pass: "real k + 1 \<le> graceMonths inp \<longleftrightarrow> k < nat \<lfloor>graceMonths inp\<rfloor>"
proof -
  have "real k + 1 = of_int (int k + 1)" by simp
  then have "real k + 1 \<le> graceMonths inp \<longleftrightarrow> int k + 1 \<le> \<lfloor>graceMonths inp\<rfloor>"
    by (simp only: le_floor_iff)
  then show ?thesis by simp linarith
qed

lemma actualLoop_from:
  "k \<le> passes inp \<Longrightarrow>
   actualLoop inp (int k + 1) (actualAfter inp k) = actualAfter inp (passes inp)"
proof (induction "passes inp - k" arbitrary: k)
  case 0
  then have "k = passes inp" by simp
  then have "\<not> real k + 1 \<le> totalMonths inp" by (simp add: pass_in_range)
  then show ?case using \<open>k = passes inp\<close> by (subst actualLoop.simps) simp
next
  case (Suc d)
  then have lt: "k < passes inp" by simp
  then have le: "real k + 1 \<le> totalMonths inp" by (simp add: pass_in_range)
  have "actualLoop inp (int k + 1) (actualAfter inp k)
        = actualLoop inp (int (Suc k) + 1) (actualAfter inp (Suc k))"
    using le by (subst actualLoop.simps) (simp add: add.commute)
  also have "\<dots> = actualAfter inp (passes inp)"
    using Suc lt by (intro Suc.hyps(1)) simp_all
  finally show ?case .
qed

lemma actualLoop_run:
  "actualLoop inp 1 (actualInit inp) = actualAfter inp (passes inp)"
  using actualLoop_from [of 0 inp] by simp

lemma stressLoop_from:
  "k \<le> passes inp \<Longrightarrow>
   stressLoop inp (int k + 1) (stressAfter inp k) = stressAfter inp (passes inp)"
proof (induction "passes inp - k" arbitrary: k)
  case 0
  then have "k = passes inp" by simp
  then have "\<not> real k + 1 \<le> totalMonths inp" by (simp add: pass_in_range)
  then show ?case using \<open>k = passes inp\<close> by (subst stressLoop.simps) simp
next
  case (Suc d)
  then have lt: "k < passes inp" by simp
  then have le: "real k + 1 \<le> totalMonths inp" by (simp add: pass_in_range)
  have "stressLoop inp (int k + 1) (stressAfter inp k)
        = stressLoop inp (int (Suc k) + 1) (stressAfter inp (Suc k))"
    using le by (subst stressLoop.simps) (simp add: add.commute)
  also have "\<dots> = stressAfter inp (passes inp)"
    using Suc lt by (intro Suc.hyps(1)) simp_all
  finally show ?case .
qed

lemma totalStressInterest_run:
  "totalStressInterest inp = snd (stressAfter inp (passes inp))"
  using stressLoop_from [of 0 inp] by (simp add: totalStressInterest_def)

lemma monthlyRate_Fin: "monthlyRate inp = Fin (interestRate inp / 1200)"
  by (simp add: monthlyRate_def)

lemma stressMonthlyRate_Fin:
  "stressMonthlyRate inp = Fin ((interestRate inp + (if applyStressDsr inp then 3 else 0)) / 1200)"
  by (simp add: stressMonthlyRate_def stressInterestRate_def stressRate_def)

lemma calculateDSR_fields:
  "monthlyPayments (calculateDSR inp) = monthlyPaymentsV (actualAfter inp (passes inp))"
  "totalInterest (calculateDSR inp) = totalInterestV (actualAfter inp (passes inp))"
  "totalPayment (calculateDSR inp) = totalPaymentV (actualAfter inp (passes inp))"
  "avgMonthlyPayment (calculateDSR inp) =
     totalPaymentV (actualAfter inp (passes inp)) / Fin (totalMonths inp)"
  "stressDsrRateUsed (calculateDSR inp) = stressInterestRate inp"
  "dsrRatio (calculateDSR inp) =
     (if 0 < annualIncome inp
      then ((annualPrincipalBurden inp + annualInterestBurden inp) / Fin (annualIncome inp)) * Fin 100
      else Fin 0)"
  by (simp_all add: calculateDSR_def actualLoop_run Let_def)


section \<open>The entries of the schedule\<close>

lemma actualStep_pushes:
  "monthlyPaymentsV (actualStep inp m s) = monthlyPaymentsV s @ [pushed inp m s]"
  by (simp add: pushed_def actualStep_def Let_def split: prod.splits)

lemma payments_after:
  "monthlyPaymentsV (actualAfter inp k)
     = map (\<lambda>j. pushed inp (int j + 1) (actualAfter inp j)) [0..<k]"
  by (induction k) (simp_all add: actualStep_pushes actualInit_def)

lemma length_payments_after [simp]: "length (monthlyPaymentsV (actualAfter inp k)) = k"
  by (simp add: payments_after)

lemma nth_payments_after:
  "j < k \<Longrightarrow> monthlyPaymentsV (actualAfter inp k) ! j = pushed inp (int j + 1) (actualAfter inp j)"
  by (simp add: payments_after)

lemma length_monthlyPayments: "length (monthlyPayments (calculateDSR inp)) = passes inp"
  by (simp add: calculateDSR_fields)

lemma nth_monthlyPayments:
  "j < passes inp \<Longrightarrow>
   monthlyPayments (calculateDSR inp) ! j = pushed inp (int j + 1) (actualAfter inp j)"
  by (simp add: calculateDSR_fields nth_payments_after)

lemma pushed_month [simp]: "month (pushed inp m s) = m"
  by (simp add: pushed_def actualStep_def Let_def split: prod.splits)

lemma pushed_interest: "interest (pushed inp m s) = remainingBalance s * monthlyRate inp"
  by (simp add: pushed_def actualStep_def Let_def split: prod.splits)

lemma pushed_balance: "balance (pushed inp m s) = remainingBalance (actualStep inp m s)"
  by (simp add: pushed_def actualStep_def Let_def split: prod.splits)

lemma pushed_grace:
  "of_int m \<le> graceMonths inp \<Longrightarrow>
   principal (pushed inp m s) = Fin 0 \<and> payment (pushed inp m s) = interest (pushed inp m s)"
  by (simp add: pushed_def actualStep_def Let_def)

lemma pushed_PrincipalEqual:
  "\<not> of_int m \<le> graceMonths inp \<Longrightarrow> repaymentMethod inp = PrincipalEqual \<Longrightarrow>
   principal (pushed inp m s)
     = Fin (loanAmount inp) / Fin (totalMonths inp - graceMonths inp)
   \<and> payment (pushed inp m s) = principal (pushed inp m s) + interest (pushed inp m s)"
  by (simp add: pushed_def actualStep_def Let_def)

lemma pushed_PrincipalInterestEqual:
  "\<not> of_int m \<le> graceMonths inp \<Longrightarrow> repaymentMethod inp = PrincipalInterestEqual \<Longrightarrow>
   payment (pushed inp m s)
     = (Fin (loanAmount inp) * monthlyRate inp
          * Math_pow (Fin 1 + monthlyRate inp) (totalMonths inp - graceMonths inp))
       / (Math_pow (Fin 1 + monthlyRate inp) (totalMonths inp - graceMonths inp) - Fin 1)
   \<and> principal (pushed inp m s) = payment (pushed inp m s) - interest (pushed inp m s)"
  by (simp add: pushed_def actualStep_def Let_def)

lemma actualStep_balance:
  "remainingBalance (actualStep inp m s)
     = (if remainingBalance s - principal (pushed inp m s) < Fin 0 then Fin 0
        else remainingBalance s - principal (pushed inp m s))"
  by (simp add: pushed_def actualStep_def Let_def split: prod.splits)

lemma actualStep_totals:
  "totalInterestV (actualStep inp m s) = totalInterestV s + interest (pushed inp m s)"
  "totalPaymentV (actualStep inp m s) = totalPaymentV s + payment (pushed inp m s)"
  by (simp_all add: pushed_def actualStep_def Let_def split: prod.splits)

section \<open>The DSR aggregation\<close>

text \<open>
  C1. For every input the aggregation computes: the annual principal burden is
  \<open>loanAmount / (loanTermYear - gracePeriodYear)\<close> for housing collateral when that
  difference is positive, \<open>loanAmount\<close> for housing collateral otherwise, and
  \<open>loanAmount / loanTermYear\<close> for other collateral; the annual interest burden is the
  total stress interest divided by the full term \<open>loanTermYear\<close>; and when
  \<open>annualIncome > 0\<close> the ratio is
  \<open>((annualPrincipalBurden + annualInterestBurden) / annualIncome) * 100\<close>.
\<close>

theorem dsr_aggregation:
  "annualPrincipalBurden inp =
     (case collateralType inp of
        Housing \<Rightarrow>
          if 0 < loanTermYear inp - gracePeriodYear inp
          then Fin (loanAmount inp) / Fin (loanTermYear inp - gracePeriodYear inp)
          else Fin (loanAmount inp)
      | Other \<Rightarrow> Fin (loanAmount inp) / Fin (loanTermYear inp))
   \<and> annualInterestBurden inp = totalStressInterest inp / Fin (loanTermYear inp)
   \<and> (0 < annualIncome inp \<longrightarrow>
        dsrRatio (calculateDSR inp) =
          ((annualPrincipalBurden inp + annualInterestBurden inp) / Fin (annualIncome inp))
            * Fin 100)"
  by (cases "collateralType inp")
     (simp_all add: annualPrincipalBurden_def annualInterestBurden_def calculateDSR_fields Let_def)

theorem dsr_aggregation_witness:
  "0 < annualIncome inputsW
   \<and> annualPrincipalBurden inputsW = Fin 1200
   \<and> annualInterestBurden inputsW = Fin 78
   \<and> dsrRatio (calculateDSR inputsW) = Fin 106.5"
proof -
  have tsi: "totalStressInterest inputsW = Fin 78" by code_simp
  have inc: "0 < annualIncome inputsW" by (simp add: inputsW_def)
  from dsr_aggregation [of inputsW] inc tsi show ?thesis
    by (simp add: inputsW_def)
qed

section \<open>The stress flag and the displayed outputs\<close>

lemma actualStep_applyStressDsr:
  "actualStep (inp\<lparr>applyStressDsr := b\<rparr>) m s = actualStep inp m s"
  by (simp add: actualStep_def monthlyRate_def graceMonths_def totalMonths_def Let_def
        cong: if_cong)

lemma actualAfter_applyStressDsr:
  "actualAfter (inp\<lparr>applyStressDsr := b\<rparr>) k = actualAfter inp k"
  by (induction k) (simp_all add: actualStep_applyStressDsr actualInit_def)

text \<open>
  C3. For every input, \<open>applyStressDsr\<close> has no effect on the displayed outputs: with the
  flag set and with the flag cleared, on otherwise identical parameters, the engine returns
  the same \<open>monthlyPayments\<close>, the same \<open>totalInterest\<close>, the same \<open>totalPayment\<close> and the
  same \<open>avgMonthlyPayment\<close> (only \<open>dsrRatio\<close> and \<open>stressDsrRateUsed\<close> may differ).
\<close>

theorem applyStressDsr_not_displayed:
  "monthlyPayments (calculateDSR (inp\<lparr>applyStressDsr := True\<rparr>))
     = monthlyPayments (calculateDSR (inp\<lparr>applyStressDsr := False\<rparr>))
   \<and> totalInterest (calculateDSR (inp\<lparr>applyStressDsr := True\<rparr>))
     = totalInterest (calculateDSR (inp\<lparr>applyStressDsr := False\<rparr>))
   \<and> totalPayment (calculateDSR (inp\<lparr>applyStressDsr := True\<rparr>))
     = totalPayment (calculateDSR (inp\<lparr>applyStressDsr := False\<rparr>))
   \<and> avgMonthlyPayment (calculateDSR (inp\<lparr>applyStressDsr := True\<rparr>))
     = avgMonthlyPayment (calculateDSR (inp\<lparr>applyStressDsr := False\<rparr>))"
  by (simp add: calculateDSR_fields actualAfter_applyStressDsr totalMonths_def passes_def)

section \<open>The grace period\<close>

lemma remainingBalance_after_Suc:
  "remainingBalance (actualAfter inp (Suc j)) = balance (pushed inp (int j + 1) (actualAfter inp j))"
  by (simp add: pushed_balance)

lemma grace_balance:
  "0 \<le> loanAmount inp \<Longrightarrow> real k \<le> graceMonths inp \<Longrightarrow>
   remainingBalance (actualAfter inp k) = Fin (loanAmount inp)"
proof (induction k)
  case 0
  show ?case by (simp add: actualInit_def)
next
  case (Suc k)
  then have "remainingBalance (actualAfter inp k) = Fin (loanAmount inp)"
    and "of_int (int k + 1) \<le> graceMonths inp" by simp_all
  then show ?case using Suc.prems(1)
    by (simp add: actualStep_balance pushed_grace del: of_int_add)
qed

text \<open>
  C7 (amended). For every input and every month \<open>m\<close> with \<open>1 \<le> m \<le> gracePeriodYear * 12\<close>
  that the schedule has, the entry for month \<open>m\<close> is interest-only: its principal is \<open>0\<close>,
  its interest is the remaining balance at the start of the month (the loan amount in
  month 1, the balance of the entry before otherwise) times the monthly rate, and its
  payment is its interest. When \<open>loanAmount \<ge> 0\<close>, the remaining balance stays equal to
  \<open>loanAmount\<close> throughout the grace period, so that the interest is
  \<open>loanAmount * monthlyRate\<close>.
\<close>

theorem grace_months_interest_only:
  assumes "1 \<le> m" and "of_int m \<le> graceMonths inp" and "of_int m \<le> totalMonths inp"
  shows "principal (monthlyPayments (calculateDSR inp) ! nat (m - 1)) = Fin 0
    \<and> interest (monthlyPayments (calculateDSR inp) ! nat (m - 1))
        = (if m = 1 then Fin (loanAmount inp)
           else balance (monthlyPayments (calculateDSR inp) ! nat (m - 2))) * monthlyRate inp
    \<and> payment (monthlyPayments (calculateDSR inp) ! nat (m - 1))
        = interest (monthlyPayments (calculateDSR inp) ! nat (m - 1))
    \<and> (0 \<le> loanAmount inp \<longrightarrow>
         interest (monthlyPayments (calculateDSR inp) ! nat (m - 1))
           = Fin (loanAmount inp) * monthlyRate inp
         \<and> balance (monthlyPayments (calculateDSR inp) ! nat (m - 1)) = Fin (loanAmount inp))"
proof -
  define j where "j = nat (m - 1)"
  have m: "m = int j + 1" using assms(1) by (simp add: j_def)
  have j: "j < passes inp" using assms(3) by (simp add: m pass_in_range)
  have e: "monthlyPayments (calculateDSR inp) ! j = pushed inp m (actualAfter inp j)"
    using nth_monthlyPayments [OF j] by (simp add: m)
  have start: "remainingBalance (actualAfter inp j)
      = (if m = 1 then Fin (loanAmount inp)
         else balance (monthlyPayments (calculateDSR inp) ! nat (m - 2)))"
  proof (cases j)
    case 0
    then show ?thesis by (simp add: m actualInit_def)
  next
    case (Suc i)
    then have "i < passes inp" using j by simp
    from nth_monthlyPayments [OF this] show ?thesis
      by (simp add: Suc m pushed_balance)
  qed
  have p: "principal (pushed inp m (actualAfter inp j)) = Fin 0"
    and t: "payment (pushed inp m (actualAfter inp j)) = interest (pushed inp m (actualAfter inp j))"
    using pushed_grace [OF assms(2)] by simp_all
  have i: "interest (pushed inp m (actualAfter inp j)) = remainingBalance (actualAfter inp j) * monthlyRate inp"
    by (rule pushed_interest)
  have b: "0 \<le> loanAmount inp \<Longrightarrow>
      remainingBalance (actualAfter inp j) = Fin (loanAmount inp)
      \<and> balance (pushed inp m (actualAfter inp j)) = Fin (loanAmount inp)"
  proof -
    assume L: "0 \<le> loanAmount inp"
    have "real j \<le> graceMonths inp" "real (Suc j) \<le> graceMonths inp"
      using assms(2) by (simp_all add: m)
    with L have "remainingBalance (actualAfter inp j) = Fin (loanAmount inp)"
      and "remainingBalance (actualAfter inp (Suc j)) = Fin (loanAmount inp)"
      by (simp_all only: grace_balance)
    then show ?thesis by (simp add: pushed_balance m)
  qed
  show ?thesis
    unfolding j_def [symmetric] e using p t i b start by simp
qed

theorem grace_months_interest_only_witness:
  "(1::int) \<le> 3 \<and> of_int 3 \<le> graceMonths inputsGrace \<and> of_int 3 \<le> totalMonths inputsGrace
   \<and> 0 \<le> loanAmount inputsGrace
   \<and> principal (monthlyPayments (calculateDSR inputsGrace) ! 2) = Fin 0
   \<and> interest (monthlyPayments (calculateDSR inputsGrace) ! 2) = Fin 12
   \<and> payment (monthlyPayments (calculateDSR inputsGrace) ! 2) = Fin 12
   \<and> balance (monthlyPayments (calculateDSR inputsGrace) ! 2) = Fin 1200"
proof -
  have h: "(1::int) \<le> 3" "of_int 3 \<le> graceMonths inputsGrace"
    "of_int 3 \<le> totalMonths inputsGrace"
    "0 \<le> loanAmount inputsGrace"
    by (simp_all add: inputsGrace_def graceMonths_def totalMonths_def)
  have r: "Fin (loanAmount inputsGrace) * monthlyRate inputsGrace = Fin 12"
    by (simp add: inputsGrace_def monthlyRate_def)
  have L: "loanAmount inputsGrace = 1200" by (simp add: inputsGrace_def)
  have n: "nat (3 - 1) = 2" by simp
  note t = grace_months_interest_only [OF h(1,2,3), unfolded n r]
  from t h(4) have "principal (monthlyPayments (calculateDSR inputsGrace) ! 2) = Fin 0"
    and "payment (monthlyPayments (calculateDSR inputsGrace) ! 2)
         = interest (monthlyPayments (calculateDSR inputsGrace) ! 2)"
    and "interest (monthlyPayments (calculateDSR inputsGrace) ! 2) = Fin 12"
    and "balance (monthlyPayments (calculateDSR inputsGrace) ! 2) = Fin (loanAmount inputsGrace)"
    by blast+
  with h show ?thesis by (simp add: L)
qed

text \<open>
  C7 as stated, for every input: with a negative loan amount the balance is floored at
  zero in the first month of the grace period and is no longer the loan amount.
\<close>

theorem grace_balance_counterexample:
  "(1::int) \<le> 1 \<and> of_int 1 \<le> graceMonths inputsNegativeLoan
   \<and> of_int 1 \<le> totalMonths inputsNegativeLoan
   \<and> balance (monthlyPayments (calculateDSR inputsNegativeLoan) ! 0) = Fin 0
   \<and> Fin 0 \<noteq> Fin (loanAmount inputsNegativeLoan)"
  by code_simp

section \<open>Equal principal without a grace period\<close>

lemma PrincipalEqual_balance:
  assumes pe: "repaymentMethod inp = PrincipalEqual" and g: "gracePeriodYear inp = 0"
    and L: "0 \<le> loanAmount inp"
  shows "k \<le> passes inp \<Longrightarrow>
    remainingBalance (actualAfter inp k)
      = Fin (loanAmount inp - real k * (loanAmount inp / totalMonths inp))"
proof (induction k)
  case 0
  show ?case by (simp add: actualInit_def)
next
  case (Suc k)
  let ?T = "totalMonths inp"
  have T: "real k + 1 \<le> ?T" using Suc.prems by (simp add: pass_in_range)
  then have T0: "totalMonths inp \<noteq> 0" by auto
  have ih: "remainingBalance (actualAfter inp k) = Fin (loanAmount inp - real k * (loanAmount inp / ?T))"
    using Suc by simp
  have ng: "\<not> of_int (int k + 1) \<le> graceMonths inp" by (simp add: graceMonths_def g)
  have p: "principal (pushed inp (int k + 1) (actualAfter inp k)) = Fin (loanAmount inp / ?T)"
    using pushed_PrincipalEqual [OF ng pe] T0 by (simp add: graceMonths_def g)
  define d where "d = loanAmount inp / ?T"
  have "(real k + 1) * d \<le> ?T * d"
    using T L by (intro mult_right_mono) (simp_all add: d_def)
  also have "\<dots> = loanAmount inp" using T0 by (simp add: d_def)
  finally have nn: "\<not> loanAmount inp - real k * d - d < 0"
    by (simp add: algebra_simps)
  show ?case
    using nn unfolding d_def [symmetric] actualAfter.simps actualStep_balance p ih
    by (simp add: algebra_simps d_def [symmetric])
qed

text \<open>
  C9 (amended). For every input with \<open>repaymentMethod = EqualPrincipal\<close>,
  \<open>gracePeriodYear = 0\<close>, \<open>loanAmount > 0\<close> and \<open>loanTermYear \<ge> 1\<close>, every entry of the
  actual schedule has principal portion \<open>loanAmount / (loanTermYear * 12)\<close>; and when
  moreover \<open>interestRate > 0\<close>, the interest portion strictly decreases from each month to
  the next.
\<close>

theorem equal_principal_schedule:
  assumes "repaymentMethod inp = PrincipalEqual" and "gracePeriodYear inp = 0"
    and "0 < loanAmount inp" and "1 \<le> loanTermYear inp"
  shows "(\<forall>i < length (monthlyPayments (calculateDSR inp)).
            principal (monthlyPayments (calculateDSR inp) ! i)
              = Fin (loanAmount inp) / Fin (loanTermYear inp * 12))
    \<and> (0 < interestRate inp \<longrightarrow>
         (\<forall>i. Suc i < length (monthlyPayments (calculateDSR inp)) \<longrightarrow>
            interest (monthlyPayments (calculateDSR inp) ! Suc i)
              < interest (monthlyPayments (calculateDSR inp) ! i)))"
proof (intro conjI allI impI)
  fix i assume "i < length (monthlyPayments (calculateDSR inp))"
  then have i: "i < passes inp" by (simp add: length_monthlyPayments)
  have ng: "\<not> of_int (int i + 1) \<le> graceMonths inp" by (simp add: graceMonths_def assms(2))
  show "principal (monthlyPayments (calculateDSR inp) ! i)
          = Fin (loanAmount inp) / Fin (loanTermYear inp * 12)"
    using pushed_PrincipalEqual [OF ng assms(1)]
    by (simp add: nth_monthlyPayments [OF i] graceMonths_def totalMonths_def assms(2))
next
  fix i assume r: "0 < interestRate inp"
    and "Suc i < length (monthlyPayments (calculateDSR inp))"
  then have si: "Suc i < passes inp" by (simp add: length_monthlyPayments)
  then have i: "i < passes inp" by simp
  let ?T = "totalMonths inp"
  let ?L = "loanAmount inp"
  have "real (Suc i) + 1 \<le> ?T" using si by (simp only: pass_in_range)
  then have T: "0 < ?T" by simp
  have L: "0 \<le> ?L" using assms(3) by simp
  have b0: "remainingBalance (actualAfter inp i) = Fin (?L - real i * (?L / ?T))"
    using PrincipalEqual_balance [OF assms(1,2) L, of i] i by simp
  have b1: "remainingBalance (actualAfter inp (Suc i)) = Fin (?L - real (Suc i) * (?L / ?T))"
    using PrincipalEqual_balance [OF assms(1,2) L, of "Suc i"] si by simp
  define d where "d = ?L / ?T"
  define \<rho> where "\<rho> = interestRate inp / 1200"
  have "0 < d * \<rho>"
    using T assms(3) r by (simp add: d_def \<rho>_def)
  then have "(?L - real (Suc i) * d) * \<rho> < (?L - real i * d) * \<rho>"
    by (simp add: algebra_simps)
  then have "(?L - real (Suc i) * (?L / ?T)) * (interestRate inp / 1200)
       < (?L - real i * (?L / ?T)) * (interestRate inp / 1200)"
    by (simp only: d_def \<rho>_def)
  then show "interest (monthlyPayments (calculateDSR inp) ! Suc i)
          < interest (monthlyPayments (calculateDSR inp) ! i)"
    unfolding nth_monthlyPayments [OF i] nth_monthlyPayments [OF si] pushed_interest b0 b1
      monthlyRate_Fin
    by simp
qed

theorem equal_principal_schedule_witness:
  "repaymentMethod inputsW = PrincipalEqual \<and> gracePeriodYear inputsW = 0
   \<and> 0 < loanAmount inputsW \<and> 1 \<le> loanTermYear inputsW \<and> 0 < interestRate inputsW
   \<and> (3::nat) < length (monthlyPayments (calculateDSR inputsW))
   \<and> Suc 3 < length (monthlyPayments (calculateDSR inputsW))
   \<and> principal (monthlyPayments (calculateDSR inputsW) ! 3) = Fin 100
   \<and> interest (monthlyPayments (calculateDSR inputsW) ! Suc 3)
       < interest (monthlyPayments (calculateDSR inputsW) ! 3)"
proof -
  have h: "repaymentMethod inputsW = PrincipalEqual" "gracePeriodYear inputsW = 0"
    "0 < loanAmount inputsW" "1 \<le> loanTermYear inputsW" "0 < interestRate inputsW"
    by (simp_all add: inputsW_def)
  have len: "length (monthlyPayments (calculateDSR inputsW)) = 12"
    by (simp add: length_monthlyPayments passes_def totalMonths_def inputsW_def)
  have p: "Fin (loanAmount inputsW) / Fin (loanTermYear inputsW * 12) = Fin 100"
    by (simp add: inputsW_def)
  note t = equal_principal_schedule [OF h(1-4), unfolded len p]
  from t have "principal (monthlyPayments (calculateDSR inputsW) ! 3) = Fin 100"
    by simp
  moreover have "Suc 3 < (12::nat)" by simp
  with t h(5) have "interest (monthlyPayments (calculateDSR inputsW) ! Suc 3)
       < interest (monthlyPayments (calculateDSR inputsW) ! 3)"
    by blast
  ultimately show ?thesis using h len by simp
qed

text \<open>
  C9 as stated, with no condition on the interest rate: at \<open>interestRate = 0\<close> the
  interest portion is \<open>0\<close> every month and does not decrease.
\<close>

theorem equal_principal_interest_counterexample:
  "repaymentMethod inputsZeroRatePE = PrincipalEqual \<and> gracePeriodYear inputsZeroRatePE = 0
   \<and> 0 < loanAmount inputsZeroRatePE \<and> 1 \<le> loanTermYear inputsZeroRatePE
   \<and> interest (monthlyPayments (calculateDSR inputsZeroRatePE) ! 0) = Fin 0
   \<and> interest (monthlyPayments (calculateDSR inputsZeroRatePE) ! 1) = Fin 0
   \<and> \<not> interest (monthlyPayments (calculateDSR inputsZeroRatePE) ! 1)
         < interest (monthlyPayments (calculateDSR inputsZeroRatePE) ! 0)"
  by code_simp

section \<open>The equal-installment schedule at a positive rate\<close>

lemma power_gt_one: "0 < r \<Longrightarrow> 0 < n \<Longrightarrow> 1 < (1 + r :: real) ^ n"
  by (simp add: one_less_power)

lemma powr_gt_one: "0 < r \<Longrightarrow> 0 < n \<Longrightarrow> 1 < (1 + r :: real) powr n"
proof -
  assume "0 < r" "0 < n"
  then have "(1 + r) powr 0 < (1 + r) powr n" by (intro powr_less_mono) simp_all
  then show ?thesis using \<open>0 < r\<close> by simp
qed

lemma annuityPayment_whole:
  "0 < r \<Longrightarrow> annuityPayment L r (real n) = L * r * (1 + r) ^ n / ((1 + r) ^ n - 1)"
  by (simp add: annuityPayment_def powr_realpow)

lemma annuityBalance_0: "(1 + r) powr n \<noteq> 1 \<Longrightarrow> annuityBalance L r n 0 = L"
  by (simp add: annuityBalance_def)

lemma annuityBalance_n: "0 < r \<Longrightarrow> annuityBalance L r (real n) n = 0"
  by (simp add: annuityBalance_def powr_realpow)

lemma annuityBalance_step:
  "annuityBalance L r n j - (annuityPayment L r n - annuityBalance L r n j * r)
     = annuityBalance L r n (Suc j)"
proof -
  define Q where "Q = (1 + r) powr n"
  define P where "P = (1 + r) ^ j"
  define a where "a = L / (Q - 1)"
  have B: "annuityBalance L r n j = (Q - P) * a"
    and B': "annuityBalance L r n (Suc j) = (Q - P * (1 + r)) * a"
    and p: "annuityPayment L r n = r * Q * a"
    by (simp_all add: annuityBalance_def annuityPayment_def Q_def P_def a_def mult.commute)
  show ?thesis unfolding B B' p by (simp add: algebra_simps)
qed

lemma annuityBalance_nonneg:
  assumes "0 \<le> L" "0 < r" "real j \<le> n" "0 < n"
  shows "0 \<le> annuityBalance L r n j"
proof -
  have "(1 + r) powr real j \<le> (1 + r) powr n" using assms by (intro powr_mono) simp_all
  then have "(1 + r) ^ j \<le> (1 + r) powr n" using assms(2) by (simp add: powr_realpow)
  moreover have "1 < (1 + r) powr n" using assms by (simp add: powr_gt_one)
  ultimately show ?thesis using assms(1) by (simp add: annuityBalance_def)
qed

lemma pushed_annuity:
  assumes "\<not> of_int m \<le> graceMonths inp" "repaymentMethod inp = PrincipalInterestEqual"
    and "0 < totalMonths inp - graceMonths inp" and "0 < interestRate inp"
  shows "payment (pushed inp m s)
    = Fin (annuityPayment (loanAmount inp) (interestRate inp / 1200)
            (totalMonths inp - graceMonths inp))"
proof -
  have "1 < (1 + interestRate inp / 1200) powr (totalMonths inp - graceMonths inp)"
    using assms(3,4) by (intro powr_gt_one) simp_all
  then show ?thesis
    using pushed_PrincipalInterestEqual [OF assms(1,2), of s] assms(3,4)
    by (simp add: monthlyRate_Fin Math_pow_powr annuityPayment_def)
qed

text \<open>
  The schedule in closed form, as long as it has no more months after the grace period
  than the \<open>n = totalMonths - graceMonths\<close> of the annuity expression.
\<close>

lemma annuity_run:
  assumes pie: "repaymentMethod inp = PrincipalInterestEqual"
    and L: "0 \<le> loanAmount inp" and r: "0 < interestRate inp"
    and gt: "graceMonths inp < totalMonths inp"
  defines "\<rho> \<equiv> interestRate inp / 1200"
    and "n \<equiv> totalMonths inp - graceMonths inp"
    and "g \<equiv> nat \<lfloor>graceMonths inp\<rfloor>"
  assumes fit: "real (passes inp - g) \<le> n"
  shows "k \<le> passes inp \<Longrightarrow>
     remainingBalance (actualAfter inp k) = Fin (annuityBalance (loanAmount inp) \<rho> n (k - g))
   \<and> js_sum (map principal (monthlyPaymentsV (actualAfter inp k)))
       = Fin (loanAmount inp - annuityBalance (loanAmount inp) \<rho> n (k - g))
   \<and> totalInterestV (actualAfter inp k)
       = Fin (real (min k g) * (loanAmount inp * \<rho>)
              + real (k - g) * annuityPayment (loanAmount inp) \<rho> n
              - (loanAmount inp - annuityBalance (loanAmount inp) \<rho> n (k - g)))"
proof (induction k)
  case 0
  have "1 < (1 + \<rho>) powr n" using r gt by (simp add: powr_gt_one \<rho>_def n_def)
  then have "annuityBalance (loanAmount inp) \<rho> n 0 = loanAmount inp"
    by (simp add: annuityBalance_0)
  then show ?case by (simp add: actualInit_def js_sum_Nil)
next
  case (Suc k)
  let ?L = "loanAmount inp"
  let ?s = "actualAfter inp k"
  let ?e = "pushed inp (int k + 1) ?s"
  define b where "b = annuityBalance ?L \<rho> n (k - g)"
  define b' where "b' = annuityBalance ?L \<rho> n (Suc k - g)"
  define p where "p = annuityPayment ?L \<rho> n"
  have k: "k < passes inp" using Suc.prems by simp
  have n: "0 < n" using gt by (simp add: n_def)
  have \<rho>: "0 < \<rho>" using r by (simp add: \<rho>_def)
  have Q: "1 < (1 + \<rho>) powr n" using \<rho> n by (simp add: powr_gt_one)
  have ih: "remainingBalance ?s = Fin b"
    "js_sum (map principal (monthlyPaymentsV ?s)) = Fin (?L - b)"
    "totalInterestV ?s = Fin (real (min k g) * (?L * \<rho>) + real (k - g) * p - (?L - b))"
    using Suc.IH k by (simp_all add: b_def p_def)
  have int: "interest ?e = Fin (b * \<rho>)"
    by (simp add: pushed_interest ih monthlyRate_Fin \<rho>_def)
  have sum: "js_sum (map principal (monthlyPaymentsV (actualAfter inp (Suc k))))
      = Fin (?L - b) + principal ?e"
    by (simp add: actualStep_pushes js_sum_snoc ih)
  have tot: "totalInterestV (actualAfter inp (Suc k))
      = Fin (real (min k g) * (?L * \<rho>) + real (k - g) * p - (?L - b) + b * \<rho>)"
    by (simp add: actualStep_totals ih int)
  have bal: "remainingBalance (actualAfter inp (Suc k))
      = (if Fin b - principal ?e < Fin 0 then Fin 0 else Fin b - principal ?e)"
    by (simp add: actualStep_balance ih)
  show ?case
  proof (cases "k < g")
    case True
    then have gr: "of_int (int k + 1) \<le> graceMonths inp" by (simp add: g_def grace_pass)
    have j: "k - g = 0" "Suc k - g = 0" "min k g = k" "min (Suc k) g = Suc k"
      using True by simp_all
    have B0: "annuityBalance ?L \<rho> n 0 = ?L"
      using Q by (simp add: annuityBalance_0)
    have bL: "b = ?L"
      by (simp add: b_def j B0)
    have pr: "principal ?e = Fin 0" using pushed_grace [OF gr] by simp
    show ?thesis
      unfolding sum tot bal pr j B0 bL
      using L by (simp add: algebra_simps)
  next
    case False
    then have ngr: "\<not> of_int (int k + 1) \<le> graceMonths inp" by (simp add: g_def grace_pass)
    have j: "Suc k - g = Suc (k - g)" "min k g = g" "min (Suc k) g = g"
      using False by simp_all
    have "Suc (k - g) \<le> passes inp - g" using False k by simp
    then have "real (Suc (k - g)) \<le> real (passes inp - g)" by (simp only: of_nat_le_iff)
    then have jn: "real (Suc (k - g)) \<le> n" using fit by simp
    have pay: "payment ?e = Fin p"
      using pushed_annuity [OF ngr pie _ r, of ?s] gt
      by (simp add: p_def \<rho>_def n_def)
    have pr: "principal ?e = Fin (p - b * \<rho>)"
      using pushed_PrincipalInterestEqual [OF ngr pie, of ?s]
      by (simp only: pay int minus_number.simps)
    have step: "b - (p - b * \<rho>) = b'"
      unfolding b_def b'_def p_def j by (rule annuityBalance_step)
    have nn: "0 \<le> b'"
      unfolding b'_def j using L \<rho> jn n by (rule annuityBalance_nonneg)
    have "remainingBalance (actualAfter inp (Suc k)) = Fin b'"
      unfolding bal pr using step nn by simp
    moreover have "js_sum (map principal (monthlyPaymentsV (actualAfter inp (Suc k))))
        = Fin (?L - b')"
      unfolding sum pr using step by simp
    moreover have "totalInterestV (actualAfter inp (Suc k))
        = Fin (real g * (?L * \<rho>) + real (Suc (k - g)) * p - (?L - b'))"
      unfolding tot j using step by (simp add: algebra_simps)
    ultimately show ?thesis
      by (simp add: b'_def p_def j)
  qed
qed

section \<open>The principal portions add up to the loan\<close>


text \<open>
  When the months after the grace period are a whole number \<open>totalMonths - graceMonths\<close>,
  the schedule has exactly that many of them.
\<close>

lemma whole_repayment_months:
  assumes w: "totalMonths inp - graceMonths inp \<in> \<int>"
    and g: "0 \<le> graceMonths inp" and gt: "graceMonths inp < totalMonths inp"
  shows "real (passes inp - nat \<lfloor>graceMonths inp\<rfloor>) = totalMonths inp - graceMonths inp"
proof -
  from w obtain z where z: "totalMonths inp - graceMonths inp = of_int z"
    by (auto elim: Ints_cases)
  then have "totalMonths inp = graceMonths inp + of_int z" by simp
  then have T: "\<lfloor>totalMonths inp\<rfloor> = \<lfloor>graceMonths inp\<rfloor> + z" by simp
  have z0: "0 < z" using z gt by (simp add: of_int_0_less_iff [symmetric] del: of_int_0_less_iff)
  define a where "a = \<lfloor>graceMonths inp\<rfloor>"
  have G: "0 \<le> a" using g by (simp add: a_def)
  have "nat (a + z) - nat a = nat z" using G z0 by linarith
  then have "passes inp - nat \<lfloor>graceMonths inp\<rfloor> = nat z"
    by (simp add: passes_def T a_def)
  then show ?thesis using z z0 by simp
qed




section \<open>The stress pass\<close>

text \<open>
  The second loop is the first one run at the stress rate: its balance and its total
  interest are those of the first loop on \<open>stressedInputs\<close>.
\<close>

lemma stressedInputs_simps [simp]:
  "monthlyRate (stressedInputs inp) = stressMonthlyRate inp"
  "graceMonths (stressedInputs inp) = graceMonths inp"
  "totalMonths (stressedInputs inp) = totalMonths inp"
  "passes (stressedInputs inp) = passes inp"
  "loanAmount (stressedInputs inp) = loanAmount inp"
  "repaymentMethod (stressedInputs inp) = repaymentMethod inp"
  by (simp_all add: stressedInputs_def monthlyRate_def stressMonthlyRate_def
        stressInterestRate_def stressRate_def graceMonths_def totalMonths_def passes_def)

lemma stressStep_actualStep:
  "stressStep inp m (remainingBalance s, totalInterestV s)
     = (remainingBalance (actualStep (stressedInputs inp) m s),
        totalInterestV (actualStep (stressedInputs inp) m s))"
  by (simp add: stressStep_def actualStep_def Let_def)

lemma stressAfter_actualAfter:
  "stressAfter inp k
     = (remainingBalance (actualAfter (stressedInputs inp) k),
        totalInterestV (actualAfter (stressedInputs inp) k))"
proof (induction k)
  case 0
  show ?case by (simp add: actualInit_def)
next
  case (Suc k)
  then show ?case by (simp add: stressStep_actualStep)
qed

lemma totalStressInterest_actual:
  "totalStressInterest inp = totalInterest (calculateDSR (stressedInputs inp))"
  by (simp add: totalStressInterest_run stressAfter_actualAfter calculateDSR_fields)

lemma annuity_reciprocal:
  assumes "1 < (q::real)"
  shows "(q ^ n - 1) / ((q - 1) * q ^ n) = (\<Sum>k<n. (1 / q) ^ Suc k)"
proof (induction n)
  case 0
  show ?case by simp
next
  case (Suc n)
  have q: "q - 1 \<noteq> 0" "q \<noteq> 0" "q ^ n \<noteq> 0" using assms by simp_all
  have "(q ^ Suc n - 1) / ((q - 1) * q ^ Suc n)
      = (q ^ n - 1) / ((q - 1) * q ^ n) + (1 / q) ^ Suc n"
    using q by (simp add: field_simps)
  then show ?case using Suc by simp
qed

lemma annuityPayment_strict_mono:
  assumes L: "0 < L" and r: "0 < r1" "r1 < r2" and n: "0 < n"
  shows "annuityPayment L r1 (real n) < annuityPayment L r2 (real n)"
proof -
  define f where "f r = ((1 + r) ^ n - 1) / (r * (1 + r) ^ n)" for r :: real
  have sum: "f r = (\<Sum>k<n. (1 / (1 + r)) ^ Suc k)" if "0 < r" for r
    using annuity_reciprocal [of "1 + r" n] that by (simp add: f_def)
  have pay: "annuityPayment L r (real n) = L / f r" if "0 < r" for r
    using that by (simp add: annuityPayment_whole f_def)
  have pos: "0 < f r" if "0 < r" for r
  proof -
    have "1 < (1 + r) ^ n" using that n by (simp add: power_gt_one)
    then show ?thesis using that by (simp add: f_def)
  qed
  have "(\<Sum>k<n. (1 / (1 + r2)) ^ Suc k) < (\<Sum>k<n. (1 / (1 + r1)) ^ Suc k)"
  proof (rule sum_strict_mono)
    show "finite {..<n}" by simp
    show "{..<n} \<noteq> {}" using n by auto
    fix k assume "k \<in> {..<n}"
    have "1 / (1 + r2) < 1 / (1 + r1)" using r by (simp add: field_simps)
    moreover have "0 \<le> 1 / (1 + r2)" using r by simp
    ultimately show "(1 / (1 + r2)) ^ Suc k < (1 / (1 + r1)) ^ Suc k"
      by (intro power_strict_mono) simp_all
  qed
  then have "f r2 < f r1" using r by (simp add: sum)
  moreover have "0 < f r2" using r by (intro pos) simp
  ultimately have "L / f r1 < L / f r2" using L by (simp add: frac_less2)
  then show ?thesis using r by (simp add: pay)
qed


lemma totalStressInterest_annuity:
  assumes pie: "repaymentMethod inp = PrincipalInterestEqual"
    and L: "0 \<le> loanAmount inp" and r: "0 < interestRate (stressedInputs inp)"
    and g: "0 \<le> graceMonths inp" and gt: "graceMonths inp < totalMonths inp"
    and w: "totalMonths inp - graceMonths inp \<in> \<int>"
  shows "totalStressInterest inp
    = Fin (real (nat \<lfloor>graceMonths inp\<rfloor>)
             * (loanAmount inp * (interestRate (stressedInputs inp) / 1200))
           + (totalMonths inp - graceMonths inp)
             * annuityPayment (loanAmount inp) (interestRate (stressedInputs inp) / 1200)
                 (totalMonths inp - graceMonths inp)
           - loanAmount inp)"
proof -
  let ?g = "nat \<lfloor>graceMonths inp\<rfloor>"
  let ?\<rho> = "interestRate (stressedInputs inp) / 1200"
  let ?n = "totalMonths inp - graceMonths inp"
  have n: "real (passes inp - ?g) = ?n"
    using w g gt by (rule whole_repayment_months)
  have "0 < real (passes inp - ?g)" using n gt by simp
  then have m: "min (passes inp) ?g = ?g" by simp
  have fit: "real (passes (stressedInputs inp) - nat \<lfloor>graceMonths (stressedInputs inp)\<rfloor>)
      \<le> totalMonths (stressedInputs inp) - graceMonths (stressedInputs inp)"
    using n by simp
  have gt': "graceMonths (stressedInputs inp) < totalMonths (stressedInputs inp)"
    using gt by simp
  have pie': "repaymentMethod (stressedInputs inp) = PrincipalInterestEqual"
    and L': "0 \<le> loanAmount (stressedInputs inp)"
    using pie L by simp_all
  have B: "annuityBalance (loanAmount inp) ?\<rho> ?n (passes inp - ?g) = 0"
    unfolding n [symmetric] using r by (intro annuityBalance_n) simp
  have "totalInterestV (actualAfter (stressedInputs inp) (passes inp))
    = Fin (real ?g * (loanAmount inp * ?\<rho>)
           + real (passes inp - ?g) * annuityPayment (loanAmount inp) ?\<rho> ?n
           - (loanAmount inp - annuityBalance (loanAmount inp) ?\<rho> ?n (passes inp - ?g)))"
    using annuity_run [OF pie' L' r gt' fit, of "passes inp"]
    by (simp add: m)
  then show ?thesis
    by (simp add: totalStressInterest_run stressAfter_actualAfter B n)
qed

text \<open>
  C8. For \<open>annualIncome = 50,000,000\<close>, \<open>loanAmount = 300,000,000\<close>, \<open>interestRate = 4.5\<close>,
  \<open>loanTermYear = 30\<close>, \<open>gracePeriodYear = 0\<close>, equal installments and housing collateral:
  with \<open>applyStressDsr\<close> set the result has \<open>stressDsrRateUsed = 7.5\<close>, the total stress
  interest is strictly greater than with the flag cleared (where it is the interest at the
  nominal rate), and so is \<open>dsrRatio\<close>.
\<close>

theorem stress_scenario:
  "stressDsrRateUsed (calculateDSR scenarioD) = Fin 7.5
   \<and> totalStressInterest scenarioA < totalStressInterest scenarioD
   \<and> dsrRatio (calculateDSR scenarioA) < dsrRatio (calculateDSR scenarioD)"
proof -
  define pA where "pA = annuityPayment 300000000 (4.5 / 1200) 360"
  define pD where "pD = annuityPayment 300000000 (7.5 / 1200) 360"
  have rA: "interestRate (stressedInputs scenarioA) = 4.5"
    and rD: "interestRate (stressedInputs scenarioD) = 7.5"
    by (simp_all add: stressedInputs_def scenarioA_def scenarioD_def)
  have fA: "repaymentMethod scenarioA = PrincipalInterestEqual" "loanAmount scenarioA = 300000000"
    "graceMonths scenarioA = 0" "totalMonths scenarioA = 360" "annualIncome scenarioA = 50000000"
    "collateralType scenarioA = Housing" "loanTermYear scenarioA = 30" "gracePeriodYear scenarioA = 0"
    by (simp_all add: scenarioA_def graceMonths_def totalMonths_def)
  have fD: "repaymentMethod scenarioD = PrincipalInterestEqual" "loanAmount scenarioD = 300000000"
    "graceMonths scenarioD = 0" "totalMonths scenarioD = 360" "annualIncome scenarioD = 50000000"
    "collateralType scenarioD = Housing" "loanTermYear scenarioD = 30" "gracePeriodYear scenarioD = 0"
    by (simp_all add: scenarioA_def scenarioD_def graceMonths_def totalMonths_def)
  have lt: "pA < pD"
    unfolding pA_def pD_def
    using annuityPayment_strict_mono [of 300000000 "4.5 / 1200" "7.5 / 1200" 360] by simp
  have tA: "totalStressInterest scenarioA = Fin (360 * pA - 300000000)"
    using totalStressInterest_annuity [of scenarioA] by (simp add: rA fA pA_def)
  have tD: "totalStressInterest scenarioD = Fin (360 * pD - 300000000)"
    using totalStressInterest_annuity [of scenarioD] by (simp add: rD fD pD_def)
  have dA: "dsrRatio (calculateDSR scenarioA)
      = Fin ((300000000 / 30 + (360 * pA - 300000000) / 30) / 50000000 * 100)"
    by (simp add: calculateDSR_fields annualPrincipalBurden_def annualInterestBurden_def
          tA fA)
  have dD: "dsrRatio (calculateDSR scenarioD)
      = Fin ((300000000 / 30 + (360 * pD - 300000000) / 30) / 50000000 * 100)"
    by (simp add: calculateDSR_fields annualPrincipalBurden_def annualInterestBurden_def
          tD fD)
  have "stressDsrRateUsed (calculateDSR scenarioD) = Fin 7.5"
    by (simp add: calculateDSR_fields stressInterestRate_def stressRate_def scenarioD_def scenarioA_def)
  moreover have "totalStressInterest scenarioA < totalStressInterest scenarioD"
    unfolding tA tD using lt by simp
  moreover have "dsrRatio (calculateDSR scenarioA) < dsrRatio (calculateDSR scenarioD)"
    unfolding dA dD using lt by simp
  ultimately show ?thesis by simp
qed

section \<open>The sign of the ratio\<close>

lemma finOrNaN_annuity:
  assumes "0 \<le> r" "0 < n"
  shows "finOrNaN ((Fin L * Fin r * Math_pow (Fin 1 + Fin r) n)
                    / (Math_pow (Fin 1 + Fin r) n - Fin 1))"
proof (cases "r = 0")
  case True
  then show ?thesis by simp
next
  case False
  then have r: "0 < r" using assms(1) by simp
  then have "1 < (1 + r) powr n" using assms(2) by (rule powr_gt_one)
  then show ?thesis using assms(2) r by (simp add: Math_pow_powr)
qed

lemma finOrNaN_principal:
  assumes "0 \<le> interestRate inp" "of_int m \<le> totalMonths inp"
    "nanOrNonNeg (remainingBalance s)"
  shows "finOrNaN (principal (pushed inp m s))"
proof (cases "of_int m \<le> graceMonths inp")
  case True
  then show ?thesis by (simp add: pushed_grace)
next
  case False
  then have n: "0 < totalMonths inp - graceMonths inp" using assms(2) by simp
  have i: "finOrNaN (interest (pushed inp m s))"
    unfolding pushed_interest monthlyRate_Fin
    using assms(1,3) by (intro nanOrNonNeg_finOrNaN nanOrNonNeg_times) simp_all
  show ?thesis
  proof (cases "repaymentMethod inp")
    case PrincipalEqual
    then show ?thesis using pushed_PrincipalEqual [OF False PrincipalEqual, of s] n
      by simp
  next
    case PrincipalInterestEqual
    have "finOrNaN (payment (pushed inp m s))"
      using pushed_PrincipalInterestEqual [OF False PrincipalInterestEqual, of s]
        finOrNaN_annuity [of "interestRate inp / 1200" "totalMonths inp - graceMonths inp" "loanAmount inp"]
        assms(1) n
      by (simp add: monthlyRate_Fin)
    then show ?thesis
      using pushed_PrincipalInterestEqual [OF False PrincipalInterestEqual, of s] i
      by (simp add: finOrNaN_minus)
  qed
qed

lemma nanOrNonNeg_run:
  assumes "0 \<le> loanAmount inp" "0 \<le> interestRate inp"
  shows "k \<le> passes inp \<Longrightarrow>
    nanOrNonNeg (remainingBalance (actualAfter inp k))
    \<and> nanOrNonNeg (totalInterestV (actualAfter inp k))"
proof (induction k)
  case 0
  show ?case using assms(1) by (simp add: actualInit_def)
next
  case (Suc k)
  let ?s = "actualAfter inp k"
  have ih: "nanOrNonNeg (remainingBalance ?s)" "nanOrNonNeg (totalInterestV ?s)"
    using Suc by simp_all
  have m: "of_int (int k + 1) \<le> totalMonths inp" using Suc.prems by (simp add: pass_in_range)
  have p: "finOrNaN (principal (pushed inp (int k + 1) ?s))"
    using assms(2) m ih(1) by (rule finOrNaN_principal)
  have i: "nanOrNonNeg (interest (pushed inp (int k + 1) ?s))"
    unfolding pushed_interest monthlyRate_Fin
    using ih(1) assms(2) by (intro nanOrNonNeg_times) simp_all
  have "nanOrNonNeg (remainingBalance (actualAfter inp (Suc k)))"
    unfolding actualAfter.simps actualStep_balance
    using nanOrNonNeg_finOrNaN [OF ih(1)] p by (intro nanOrNonNeg_floor finOrNaN_minus)
  moreover have "nanOrNonNeg (totalInterestV (actualAfter inp (Suc k)))"
    unfolding actualAfter.simps actualStep_totals
    using ih(2) i by (rule nanOrNonNeg_plus)
  ultimately show ?case by simp
qed

lemma nanOrNonNeg_totalStressInterest:
  assumes "0 \<le> loanAmount inp" "0 \<le> interestRate inp"
  shows "nanOrNonNeg (totalStressInterest inp)"
proof -
  have "0 \<le> interestRate (stressedInputs inp)"
    using assms(2) by (simp add: stressedInputs_def)
  with nanOrNonNeg_run [of "stressedInputs inp" "passes inp"] assms(1)
  show ?thesis by (simp add: totalStressInterest_run stressAfter_actualAfter)
qed

lemma nanOrNonNeg_dsrRatio:
  assumes "0 \<le> loanAmount inp" "0 \<le> interestRate inp" "0 \<le> loanTermYear inp"
  shows "nanOrNonNeg (dsrRatio (calculateDSR inp))"
proof (cases "0 < annualIncome inp")
  case False
  then show ?thesis by (simp add: calculateDSR_fields)
next
  case True
  have tsi: "nanOrNonNeg (totalStressInterest inp)"
    using assms(1,2) by (rule nanOrNonNeg_totalStressInterest)
  have sum: "nanOrNonNeg (annualPrincipalBurden inp + annualInterestBurden inp)"
  proof (cases "loanTermYear inp = 0")
    case True
    then have "totalStressInterest inp = Fin 0"
      by (simp add: totalStressInterest_run totalMonths_def passes_def)
    then have "annualInterestBurden inp = NaN"
      by (simp add: annualInterestBurden_def True)
    then show ?thesis by simp
  next
    case False
    then have t: "0 < loanTermYear inp" using assms(3) by simp
    have "nanOrNonNeg (annualInterestBurden inp)"
      unfolding annualInterestBurden_def using tsi t by (rule nanOrNonNeg_divide)
    moreover have "nanOrNonNeg (annualPrincipalBurden inp)"
      using assms(1) t by (simp add: annualPrincipalBurden_def Let_def)
    ultimately show ?thesis by (intro nanOrNonNeg_plus)
  qed
  have "nanOrNonNeg ((annualPrincipalBurden inp + annualInterestBurden inp) / Fin (annualIncome inp))"
    using sum True by (rule nanOrNonNeg_divide)
  then have "nanOrNonNeg ((annualPrincipalBurden inp + annualInterestBurden inp) / Fin (annualIncome inp) * Fin 100)"
    by (rule nanOrNonNeg_times) simp
  then show ?thesis using True by (simp add: calculateDSR_fields)
qed

text \<open>
  C6 (amended). For every input, if \<open>annualIncome \<le> 0\<close> then \<open>dsrRatio = 0\<close> (not an error);
  and for every input with non-negative \<open>annualIncome\<close>, \<open>loanAmount\<close>, \<open>interestRate\<close> and
  \<open>loanTermYear\<close>, \<open>dsrRatio\<close> is never negative (it is a finite number that is not
  negative, or \<open>NaN\<close>).
\<close>

theorem dsr_income_guard_and_sign:
  "(annualIncome inp \<le> 0 \<longrightarrow> dsrRatio (calculateDSR inp) = Fin 0)
   \<and> (0 \<le> annualIncome inp \<and> 0 \<le> loanAmount inp \<and> 0 \<le> interestRate inp
        \<and> 0 \<le> loanTermYear inp
      \<longrightarrow> \<not> dsrRatio (calculateDSR inp) < Fin 0)"
  using nanOrNonNeg_dsrRatio [of inp]
  by (auto simp add: calculateDSR_fields dest: nanOrNonNeg_not_less)

theorem dsr_income_guard_and_sign_witness:
  "annualIncome inputsNoIncome \<le> 0 \<and> dsrRatio (calculateDSR inputsNoIncome) = Fin 0
   \<and> 0 \<le> annualIncome inputsW \<and> 0 \<le> loanAmount inputsW \<and> 0 \<le> interestRate inputsW
   \<and> 0 \<le> loanTermYear inputsW \<and> \<not> dsrRatio (calculateDSR inputsW) < Fin 0"
proof -
  have a: "annualIncome inputsNoIncome \<le> 0" by (simp add: inputsNoIncome_def)
  have b: "0 \<le> annualIncome inputsW" "0 \<le> loanAmount inputsW" "0 \<le> interestRate inputsW"
    "0 \<le> loanTermYear inputsW"
    by (simp_all add: inputsW_def)
  from dsr_income_guard_and_sign [of inputsNoIncome] dsr_income_guard_and_sign [of inputsW] a b
  show ?thesis by blast
qed

text \<open>
  C6 as stated, with no condition on the loan term: for other collateral and a negative
  \<open>loanTermYear\<close> the principal burden \<open>loanAmount / loanTermYear\<close> is negative, and so is
  the ratio.
\<close>

theorem dsr_sign_counterexample:
  "0 \<le> annualIncome inputsNegativeTerm \<and> 0 \<le> loanAmount inputsNegativeTerm
   \<and> 0 \<le> interestRate inputsNegativeTerm
   \<and> dsrRatio (calculateDSR inputsNegativeTerm) = Fin (- 100)
   \<and> dsrRatio (calculateDSR inputsNegativeTerm) < Fin 0"
  by code_simp

section \<open>Equal installments at zero interest\<close>

lemma zero_rate_divisor:
  "interestRate inp = 0 \<Longrightarrow> Math_pow (Fin 1 + monthlyRate inp) n - Fin 1 = Fin 0"
  by (simp add: monthlyRate_Fin)

lemma zero_rate_payment:
  assumes "repaymentMethod inp = PrincipalInterestEqual" "interestRate inp = 0"
    and "\<not> of_int m \<le> graceMonths inp"
  shows "payment (pushed inp m s) = NaN" "principal (pushed inp m s) = NaN"
proof -
  show p: "payment (pushed inp m s) = NaN"
    using pushed_PrincipalInterestEqual [OF assms(3,1), of s] assms(2)
    by (simp add: zero_rate_divisor) (simp add: monthlyRate_Fin)
  show "principal (pushed inp m s) = NaN"
    using pushed_PrincipalInterestEqual [OF assms(3,1), of s] by (simp add: p)
qed

lemma zero_rate_run:
  assumes "repaymentMethod inp = PrincipalInterestEqual" "interestRate inp = 0"
  shows "nat \<lfloor>graceMonths inp\<rfloor> < k \<Longrightarrow>
     remainingBalance (actualAfter inp k) = NaN \<and> totalPaymentV (actualAfter inp k) = NaN"
proof (induction k)
  case 0
  then show ?case by simp
next
  case (Suc k)
  then have "\<not> k < nat \<lfloor>graceMonths inp\<rfloor>" by simp
  then have "\<not> of_int (int k + 1) \<le> graceMonths inp" by (simp add: grace_pass)
  from zero_rate_payment [OF assms this, of "actualAfter inp k"]
  show ?case by (simp add: actualStep_balance actualStep_totals)
qed

lemma zero_rate_interest:
  assumes "repaymentMethod inp = PrincipalInterestEqual" "interestRate inp = 0"
  shows "Suc (nat \<lfloor>graceMonths inp\<rfloor>) < k \<Longrightarrow> totalInterestV (actualAfter inp k) = NaN"
proof (induction k)
  case 0
  then show ?case by simp
next
  case (Suc k)
  then have "nat \<lfloor>graceMonths inp\<rfloor> < k" by simp
  from zero_rate_run [OF assms this]
  show ?case by (simp add: actualStep_totals pushed_interest)
qed

text \<open>
  C10 (amended). For inputs with equal installments and \<open>interestRate = 0\<close> whose schedule
  has a month \<open>m\<close> after the grace period, \<open>gracePeriodYear * 12 < m \<le> loanTermYear * 12\<close>
  with \<open>m \<ge> 1\<close> (whole year counts with \<open>loanTermYear \<ge> 1\<close> and
  \<open>gracePeriodYear < loanTermYear\<close> have twelve such months): the divisor \<open>(1 + r)^n - 1\<close>
  of the annuity payment is \<open>0\<close> in the actual pass, and in the stress pass when
  \<open>applyStressDsr\<close> is false; the division is not guarded, and the payment of every month
  after the grace period, \<open>totalPayment\<close> and \<open>avgMonthlyPayment\<close> are \<open>NaN\<close>, not finite
  numbers; \<open>dsrRatio\<close> is \<open>NaN\<close> when moreover the schedule has a second month after the
  grace period (\<open>m + 1 \<le> loanTermYear * 12\<close>), \<open>applyStressDsr\<close> is false and
  \<open>annualIncome > 0\<close>.
\<close>

theorem zero_rate_not_finite:
  assumes "repaymentMethod inp = PrincipalInterestEqual" and "interestRate inp = 0"
    and "1 \<le> m" and "graceMonths inp < of_int m" and "of_int m \<le> totalMonths inp"
  shows "Math_pow (Fin 1 + monthlyRate inp) (totalMonths inp - graceMonths inp) - Fin 1 = Fin 0
    \<and> (\<not> applyStressDsr inp \<longrightarrow>
         Math_pow (Fin 1 + stressMonthlyRate inp) (totalMonths inp - graceMonths inp) - Fin 1 = Fin 0)
    \<and> (\<forall>i < length (monthlyPayments (calculateDSR inp)).
          graceMonths inp < of_int (month (monthlyPayments (calculateDSR inp) ! i)) \<longrightarrow>
          payment (monthlyPayments (calculateDSR inp) ! i) = NaN)
    \<and> totalPayment (calculateDSR inp) = NaN
    \<and> avgMonthlyPayment (calculateDSR inp) = NaN
    \<and> (\<not> applyStressDsr inp \<and> 0 < annualIncome inp \<and> of_int m + 1 \<le> totalMonths inp \<longrightarrow>
         dsrRatio (calculateDSR inp) = NaN)"
proof -
  have "\<lfloor>graceMonths inp\<rfloor> < m" using assms(4) by (simp add: floor_less_iff)
  then have gm: "nat \<lfloor>graceMonths inp\<rfloor> < nat m" using assms(3) by linarith
  have "m \<le> \<lfloor>totalMonths inp\<rfloor>" using assms(5) by (simp add: le_floor_iff)
  then have mt: "nat m \<le> passes inp" by (simp add: passes_def nat_mono)
  have k1: "nat \<lfloor>graceMonths inp\<rfloor> < passes inp" using gm mt by (rule less_le_trans)
  have k2: "Suc (nat \<lfloor>graceMonths inp\<rfloor>) < passes inp" if "of_int m + 1 \<le> totalMonths inp"
  proof -
    have "of_int (m + 1) \<le> totalMonths inp" using that by simp
    then have "m + 1 \<le> \<lfloor>totalMonths inp\<rfloor>" by (simp only: le_floor_iff)
    then have "Suc (nat m) \<le> passes inp" using assms(3) by (simp add: passes_def)
    then show ?thesis using gm by linarith
  qed
  have a: "Math_pow (Fin 1 + monthlyRate inp) (totalMonths inp - graceMonths inp) - Fin 1 = Fin 0"
    using assms(2) by (rule zero_rate_divisor)
  have s: "stressedInputs inp = inp" if "\<not> applyStressDsr inp"
    using that by (simp add: stressedInputs_def)
  have a': "Math_pow (Fin 1 + stressMonthlyRate inp) (totalMonths inp - graceMonths inp) - Fin 1 = Fin 0"
    if "\<not> applyStressDsr inp"
    using that assms(2) by (simp add: stressMonthlyRate_Fin)
  have b: "payment (monthlyPayments (calculateDSR inp) ! i) = NaN"
    if "i < length (monthlyPayments (calculateDSR inp))"
      "graceMonths inp < of_int (month (monthlyPayments (calculateDSR inp) ! i))" for i
  proof -
    have i: "i < passes inp" using that(1) by (simp add: length_monthlyPayments)
    have "\<not> of_int (int i + 1) \<le> graceMonths inp"
      using that(2) by (simp add: nth_monthlyPayments [OF i])
    then show ?thesis
      using zero_rate_payment(1) [OF assms(1,2)] by (simp add: nth_monthlyPayments [OF i])
  qed
  have c: "totalPayment (calculateDSR inp) = NaN"
    using zero_rate_run [OF assms(1,2) k1] by (simp add: calculateDSR_fields)
  then have c': "avgMonthlyPayment (calculateDSR inp) = NaN"
    by (simp add: calculateDSR_fields)
  have d: "dsrRatio (calculateDSR inp) = NaN"
    if "\<not> applyStressDsr inp" "0 < annualIncome inp" "of_int m + 1 \<le> totalMonths inp"
  proof -
    have "totalStressInterest inp = NaN"
      using zero_rate_interest [OF assms(1,2) k2 [OF that(3)]]
      by (simp add: totalStressInterest_run stressAfter_actualAfter s [OF that(1)])
    then show ?thesis using that(2)
      by (simp add: calculateDSR_fields annualInterestBurden_def)
  qed
  from a a' b c c' d show ?thesis by blast
qed

theorem zero_rate_not_finite_witness:
  "repaymentMethod inputsZeroRate = PrincipalInterestEqual \<and> interestRate inputsZeroRate = 0
   \<and> (1::int) \<le> 6 \<and> graceMonths inputsZeroRate < of_int 6
   \<and> of_int 6 \<le> totalMonths inputsZeroRate
   \<and> \<not> applyStressDsr inputsZeroRate \<and> 0 < annualIncome inputsZeroRate
   \<and> of_int 6 + 1 \<le> totalMonths inputsZeroRate
   \<and> (5::nat) < length (monthlyPayments (calculateDSR inputsZeroRate))
   \<and> graceMonths inputsZeroRate
        < of_int (month (monthlyPayments (calculateDSR inputsZeroRate) ! 5))
   \<and> payment (monthlyPayments (calculateDSR inputsZeroRate) ! 5) = NaN
   \<and> totalPayment (calculateDSR inputsZeroRate) = NaN
   \<and> dsrRatio (calculateDSR inputsZeroRate) = NaN
   \<and> \<not> isFinite (dsrRatio (calculateDSR inputsZeroRate))"
proof -
  have h: "repaymentMethod inputsZeroRate = PrincipalInterestEqual" "interestRate inputsZeroRate = 0"
    "(1::int) \<le> 6" "graceMonths inputsZeroRate < of_int 6"
    "of_int 6 \<le> totalMonths inputsZeroRate"
    by (simp_all add: inputsZeroRate_def graceMonths_def totalMonths_def)
  have i: "\<not> applyStressDsr inputsZeroRate" "0 < annualIncome inputsZeroRate"
    "of_int 6 + 1 \<le> totalMonths inputsZeroRate"
    by (simp_all add: inputsZeroRate_def totalMonths_def)
  have l: "(5::nat) < length (monthlyPayments (calculateDSR inputsZeroRate))"
    by (simp add: length_monthlyPayments passes_def totalMonths_def inputsZeroRate_def)
  then have "5 < passes inputsZeroRate" by (simp add: length_monthlyPayments)
  then have g: "graceMonths inputsZeroRate
        < of_int (month (monthlyPayments (calculateDSR inputsZeroRate) ! 5))"
    by (simp add: nth_monthlyPayments graceMonths_def inputsZeroRate_def)
  note t = zero_rate_not_finite [OF h]
  from t l g have "payment (monthlyPayments (calculateDSR inputsZeroRate) ! 5) = NaN" by blast
  moreover from t have "totalPayment (calculateDSR inputsZeroRate) = NaN" by blast
  moreover from t i have d: "dsrRatio (calculateDSR inputsZeroRate) = NaN" by blast
  ultimately show ?thesis using h i l g by (simp add: isFinite_def)
qed

text \<open>
  C10 as stated, for every input with equal installments and \<open>interestRate = 0\<close>: without
  income the guard \<open>annualIncome > 0\<close> returns the finite ratio \<open>0\<close>, whatever the passes
  computed.
\<close>

theorem zero_rate_no_income_counterexample:
  "repaymentMethod inputsZeroRateNoIncome = PrincipalInterestEqual
   \<and> interestRate inputsZeroRateNoIncome = 0 \<and> \<not> applyStressDsr inputsZeroRateNoIncome
   \<and> payment (monthlyPayments (calculateDSR inputsZeroRateNoIncome) ! 0) = NaN
   \<and> dsrRatio (calculateDSR inputsZeroRateNoIncome) = Fin 0
   \<and> isFinite (dsrRatio (calculateDSR inputsZeroRateNoIncome))"
  by code_simp

text \<open>
  With a single month after the grace period that month still adds \<open>balance * 0 = 0\<close> to the
  stress interest, and the ratio is finite: so \<open>dsrRatio\<close> is \<open>NaN\<close> only from the second
  such month on.
\<close>

lemma grace_balance_passes:
  assumes "0 \<le> loanAmount inp" "k \<le> nat \<lfloor>graceMonths inp\<rfloor>"
  shows "remainingBalance (actualAfter inp k) = Fin (loanAmount inp)"
proof (cases k)
  case 0
  then show ?thesis by (simp add: actualInit_def)
next
  case (Suc j)
  then have "j < nat \<lfloor>graceMonths inp\<rfloor>" using assms(2) by simp
  then have "real j + 1 \<le> graceMonths inp" by (simp only: grace_pass)
  then have "real k \<le> graceMonths inp" using Suc by simp
  with assms(1) show ?thesis by (rule grace_balance)
qed

lemma zero_rate_first_interest:
  assumes "interestRate inp = 0" "0 \<le> loanAmount inp"
  shows "k \<le> Suc (nat \<lfloor>graceMonths inp\<rfloor>) \<Longrightarrow> totalInterestV (actualAfter inp k) = Fin 0"
proof (induction k)
  case 0
  show ?case by (simp add: actualInit_def)
next
  case (Suc k)
  then have k: "k \<le> nat \<lfloor>graceMonths inp\<rfloor>" and ih: "totalInterestV (actualAfter inp k) = Fin 0"
    by simp_all
  have "remainingBalance (actualAfter inp k) = Fin (loanAmount inp)"
    using assms(2) k by (rule grace_balance_passes)
  then show ?case
    by (simp add: actualStep_totals pushed_interest ih monthlyRate_Fin assms(1))
qed

lemma one_month_after_grace:
  "totalPayment (calculateDSR inputsOneMonthLeft) = NaN
   \<and> dsrRatio (calculateDSR inputsOneMonthLeft) = Fin 2000"
proof -
  have p: "passes inputsOneMonthLeft = 12"
    by (simp add: passes_def totalMonths_def inputsOneMonthLeft_def)
  have g: "nat \<lfloor>graceMonths inputsOneMonthLeft\<rfloor> = 11"
  proof -
    have "\<lfloor>57 / 5 :: real\<rfloor> = 11" by (simp add: floor_eq_iff)
    then show ?thesis by (simp add: graceMonths_def inputsOneMonthLeft_def)
  qed
  have f: "repaymentMethod inputsOneMonthLeft = PrincipalInterestEqual"
    "interestRate inputsOneMonthLeft = 0" "0 \<le> loanAmount inputsOneMonthLeft"
    "stressedInputs inputsOneMonthLeft = inputsOneMonthLeft"
    by (simp_all add: inputsOneMonthLeft_def stressedInputs_def)
  have "totalPaymentV (actualAfter inputsOneMonthLeft 12) = NaN"
    using zero_rate_run [OF f(1,2), of 12] by (simp add: g)
  then have a: "totalPayment (calculateDSR inputsOneMonthLeft) = NaN"
    by (simp add: calculateDSR_fields p)
  have "totalInterestV (actualAfter inputsOneMonthLeft 12) = Fin 0"
    using zero_rate_first_interest [OF f(2,3), of 12] by (simp add: g)
  then have t: "totalStressInterest inputsOneMonthLeft = Fin 0"
    by (simp add: totalStressInterest_run stressAfter_actualAfter f(4) p)
  have "dsrRatio (calculateDSR inputsOneMonthLeft) = Fin 2000"
    by (simp add: calculateDSR_fields annualPrincipalBurden_def annualInterestBurden_def t Let_def)
       (simp add: inputsOneMonthLeft_def)
  with a show ?thesis by simp
qed

section \<open>Finite balances\<close>

text \<open>
  At a positive rate, or with equal principal, the loop stays within the finite numbers,
  and the portions of each month are as follows.
\<close>

lemma finite_step:
  assumes b: "remainingBalance s = Fin b"
    and pie: "repaymentMethod inp = PrincipalInterestEqual \<longrightarrow> 0 < interestRate inp"
    and m: "of_int m \<le> totalMonths inp"
  shows "\<exists>p. principal (pushed inp m s) = Fin p
           \<and> interest (pushed inp m s) = Fin (b * (interestRate inp / 1200))
           \<and> payment (pushed inp m s) = Fin (p + b * (interestRate inp / 1200))
           \<and> (repaymentMethod inp = PrincipalInterestEqual \<and> \<not> of_int m \<le> graceMonths inp \<longrightarrow>
                p = annuityPayment (loanAmount inp) (interestRate inp / 1200)
                      (totalMonths inp - graceMonths inp) - b * (interestRate inp / 1200))
           \<and> (repaymentMethod inp = PrincipalEqual \<and> \<not> of_int m \<le> graceMonths inp \<longrightarrow>
                p = loanAmount inp / (totalMonths inp - graceMonths inp))
           \<and> (of_int m \<le> graceMonths inp \<longrightarrow> p = 0)"
proof -
  have i: "interest (pushed inp m s) = Fin (b * (interestRate inp / 1200))"
    by (simp add: pushed_interest b monthlyRate_Fin)
  show ?thesis
  proof (cases "of_int m \<le> graceMonths inp")
    case True
    then show ?thesis using pushed_grace [OF True, of s] i by simp
  next
    case False
    then have n: "0 < totalMonths inp - graceMonths inp" using m by simp
    show ?thesis
    proof (cases "repaymentMethod inp")
      case PrincipalEqual
      then show ?thesis
        using pushed_PrincipalEqual [OF False PrincipalEqual, of s] i n False
        by simp
    next
      case PrincipalInterestEqual
      then have r: "0 < interestRate inp" using pie by simp
      have "payment (pushed inp m s)
          = Fin (annuityPayment (loanAmount inp) (interestRate inp / 1200)
                   (totalMonths inp - graceMonths inp))"
        using False PrincipalInterestEqual n r by (rule pushed_annuity)
      then show ?thesis
        using pushed_PrincipalInterestEqual [OF False PrincipalInterestEqual, of s] i False
          PrincipalInterestEqual
        by simp
    qed
  qed
qed

lemma finite_run:
  assumes "repaymentMethod inp = PrincipalInterestEqual \<longrightarrow> 0 < interestRate inp"
  shows "k \<le> passes inp \<Longrightarrow> \<exists>b. remainingBalance (actualAfter inp k) = Fin b"
proof (induction k)
  case 0
  show ?case by (simp add: actualInit_def)
next
  case (Suc k)
  then obtain b where b: "remainingBalance (actualAfter inp k) = Fin b" by auto
  have m: "of_int (int k + 1) \<le> totalMonths inp" using Suc.prems by (simp add: pass_in_range)
  from finite_step [OF b assms m] obtain p where
    "principal (pushed inp (int k + 1) (actualAfter inp k)) = Fin p" by blast
  then show ?case by (simp add: actualStep_balance b)
qed

lemma annuityPayment_ge_interest:
  assumes "0 \<le> L" "0 < r" "0 < n"
  shows "L * r \<le> annuityPayment L r n"
proof -
  define Q where "Q = (1 + r) powr n"
  have Q: "1 < Q" using assms by (simp add: Q_def powr_gt_one)
  have "L * r * (Q - 1) \<le> L * r * Q" using assms by (simp add: mult_left_mono)
  then have "L * r \<le> L * r * Q / (Q - 1)" using Q by (simp add: pos_le_divide_eq)
  then show ?thesis by (simp add: annuityPayment_def Q_def)
qed

lemma bounded_step:
  assumes L: "0 \<le> loanAmount inp" and r: "0 \<le> interestRate inp"
    and pie: "repaymentMethod inp = PrincipalInterestEqual \<longrightarrow> 0 < interestRate inp"
    and b: "remainingBalance s = Fin b" "0 \<le> b" "b \<le> loanAmount inp"
    and m: "of_int m \<le> totalMonths inp"
  shows "\<exists>b'. remainingBalance (actualStep inp m s) = Fin b' \<and> 0 \<le> b' \<and> b' \<le> b"
proof -
  let ?\<rho> = "interestRate inp / 1200"
  let ?n = "totalMonths inp - graceMonths inp"
  from finite_step [OF b(1) pie m] obtain p where
    p: "principal (pushed inp m s) = Fin p"
    and pie_p: "repaymentMethod inp = PrincipalInterestEqual \<and> \<not> of_int m \<le> graceMonths inp \<longrightarrow>
                p = annuityPayment (loanAmount inp) ?\<rho> ?n - b * ?\<rho>"
    and pe_p: "repaymentMethod inp = PrincipalEqual \<and> \<not> of_int m \<le> graceMonths inp \<longrightarrow>
                p = loanAmount inp / ?n"
    and gr_p: "of_int m \<le> graceMonths inp \<longrightarrow> p = 0"
    by blast
  have "0 \<le> p"
  proof (cases "of_int m \<le> graceMonths inp")
    case True
    then show ?thesis using gr_p by simp
  next
    case False
    then have n: "0 < ?n" using m by simp
    show ?thesis
    proof (cases "repaymentMethod inp")
      case PrincipalEqual
      then show ?thesis using pe_p False L n by simp
    next
      case PrincipalInterestEqual
      then have \<rho>: "0 < ?\<rho>" using pie by simp
      have "b * ?\<rho> \<le> loanAmount inp * ?\<rho>"
        using b(3) \<rho> by (simp add: mult_right_mono)
      also have "\<dots> \<le> annuityPayment (loanAmount inp) ?\<rho> ?n"
        using L \<rho> n by (intro annuityPayment_ge_interest) simp_all
      finally show ?thesis using pie_p False PrincipalInterestEqual by simp
    qed
  qed
  then show ?thesis
    using b(2) by (simp add: actualStep_balance b(1) p)
qed

lemma bounded_run:
  assumes L: "0 \<le> loanAmount inp" and r: "0 \<le> interestRate inp"
    and pie: "repaymentMethod inp = PrincipalInterestEqual \<longrightarrow> 0 < interestRate inp"
  shows "k \<le> passes inp \<Longrightarrow>
    \<exists>b. remainingBalance (actualAfter inp k) = Fin b \<and> 0 \<le> b \<and> b \<le> loanAmount inp"
proof (induction k)
  case 0
  show ?case using L by (simp add: actualInit_def)
next
  case (Suc k)
  then obtain b where b: "remainingBalance (actualAfter inp k) = Fin b" "0 \<le> b"
    "b \<le> loanAmount inp" by auto
  have m: "of_int (int k + 1) \<le> totalMonths inp" using Suc.prems by (simp add: pass_in_range)
  from bounded_step [OF L r pie b m] b(3) show ?case by auto
qed

section \<open>The balance is floored and does not increase\<close>

text \<open>
  With \<open>loanAmount \<ge> 0\<close> and \<open>interestRate \<ge> 0\<close>, and \<open>interestRate > 0\<close> for equal
  installments, every balance of the schedule is \<open>\<ge> 0\<close> and no balance exceeds the one
  before.
\<close>

lemma balance_floor_monotone:
  assumes L: "0 \<le> loanAmount inp" and r: "0 \<le> interestRate inp"
    and pie: "repaymentMethod inp = PrincipalInterestEqual \<longrightarrow> 0 < interestRate inp"
  shows "(\<forall>i < length (monthlyPayments (calculateDSR inp)).
            Fin 0 \<le> balance (monthlyPayments (calculateDSR inp) ! i))
    \<and> (\<forall>i. Suc i < length (monthlyPayments (calculateDSR inp)) \<longrightarrow>
            balance (monthlyPayments (calculateDSR inp) ! Suc i)
              \<le> balance (monthlyPayments (calculateDSR inp) ! i))"
proof (intro conjI allI impI)
  fix i assume "i < length (monthlyPayments (calculateDSR inp))"
  then have i: "i < passes inp" by (simp add: length_monthlyPayments)
  then have "Suc i \<le> passes inp" by simp
  from bounded_run [OF L r pie this]
  show "Fin 0 \<le> balance (monthlyPayments (calculateDSR inp) ! i)"
    by (auto simp add: nth_monthlyPayments [OF i] pushed_balance)
next
  fix i assume "Suc i < length (monthlyPayments (calculateDSR inp))"
  then have si: "Suc i < passes inp" by (simp add: length_monthlyPayments)
  then have i: "i < passes inp" and le: "Suc i \<le> passes inp" by simp_all
  from bounded_run [OF L r pie le] obtain b where
    b: "remainingBalance (actualAfter inp (Suc i)) = Fin b" "0 \<le> b" "b \<le> loanAmount inp"
    by auto
  have m: "of_int (int (Suc i) + 1) \<le> totalMonths inp"
    using si by (simp add: pass_in_range [symmetric])
  from bounded_step [OF L r pie b m] obtain b' where
    "remainingBalance (actualStep inp (int (Suc i) + 1) (actualAfter inp (Suc i))) = Fin b'"
    "b' \<le> b" by auto
  then show "balance (monthlyPayments (calculateDSR inp) ! Suc i)
       \<le> balance (monthlyPayments (calculateDSR inp) ! i)"
    using b(1)
    by (simp add: nth_monthlyPayments [OF i] nth_monthlyPayments [OF si] pushed_balance)
qed

text \<open>
  C4. For every input with non-negative \<open>loanAmount\<close> and \<open>interestRate\<close> and
  \<open>loanTermYear \<ge> 1\<close>, the balances of the actual schedule should not increase from one
  entry to the next and should all be \<open>\<ge> 0\<close>. The code at such an input, one year of equal
  installments at \<open>interestRate = 0\<close> with \<open>loanAmount = 1200\<close>: the annuity payment is
  \<open>0 / 0\<close>, the balance of every entry is \<open>NaN\<close>, which the floor \<open>remainingBalance < 0\<close>
  lets through; it is not \<open>\<ge> 0\<close>, and the balance of the second entry is not \<open>\<le>\<close> that of
  the first.
\<close>

theorem zero_rate_balance_failure:
  "0 \<le> loanAmount inputsZeroRate \<and> 0 \<le> interestRate inputsZeroRate
   \<and> 1 \<le> loanTermYear inputsZeroRate
   \<and> balance (monthlyPayments (calculateDSR inputsZeroRate) ! 0) = NaN
   \<and> balance (monthlyPayments (calculateDSR inputsZeroRate) ! 1) = NaN
   \<and> \<not> Fin 0 \<le> balance (monthlyPayments (calculateDSR inputsZeroRate) ! 0)
   \<and> \<not> balance (monthlyPayments (calculateDSR inputsZeroRate) ! 1)
         \<le> balance (monthlyPayments (calculateDSR inputsZeroRate) ! 0)"
  by code_simp

section \<open>Principal plus interest is the payment\<close>

text \<open>
  With equal principal, and with equal installments at a positive rate, the principal and
  the interest of every entry add up to its payment.
\<close>

lemma portions_add_up:
  assumes "repaymentMethod inp = PrincipalInterestEqual \<longrightarrow> 0 < interestRate inp"
    and "i < length (monthlyPayments (calculateDSR inp))"
  shows "js_eq (principal (monthlyPayments (calculateDSR inp) ! i)
                 + interest (monthlyPayments (calculateDSR inp) ! i))
               (payment (monthlyPayments (calculateDSR inp) ! i))"
proof -
  have i: "i < passes inp" using assms(2) by (simp add: length_monthlyPayments)
  then obtain b where b: "remainingBalance (actualAfter inp i) = Fin b"
    using finite_run [OF assms(1), of i] by auto
  have m: "of_int (int i + 1) \<le> totalMonths inp" using i by (simp add: pass_in_range)
  from finite_step [OF b assms(1) m] show ?thesis
    by (auto simp add: nth_monthlyPayments [OF i] js_eq_def)
qed

text \<open>
  C5. For every input, every entry of the actual schedule should satisfy
  \<open>principal + interest == payment\<close>, in grace-period months, equal-principal months and
  equal-installment months. The code at one year of equal installments at
  \<open>interestRate = 0\<close> with \<open>loanAmount = 1200\<close>: the first entry has principal \<open>NaN\<close>,
  interest \<open>0\<close> and payment \<open>NaN\<close>, and \<open>principal + interest == payment\<close> is false.
\<close>

theorem zero_rate_portions_failure:
  "principal (monthlyPayments (calculateDSR inputsZeroRate) ! 0) = NaN
   \<and> interest (monthlyPayments (calculateDSR inputsZeroRate) ! 0) = Fin 0
   \<and> payment (monthlyPayments (calculateDSR inputsZeroRate) ! 0) = NaN
   \<and> \<not> js_eq (principal (monthlyPayments (calculateDSR inputsZeroRate) ! 0)
                + interest (monthlyPayments (calculateDSR inputsZeroRate) ! 0))
               (payment (monthlyPayments (calculateDSR inputsZeroRate) ! 0))"
  by code_simp

end
